theory Spec2Isabelle
  imports Complex_Main "HOL-Library.AList"
begin

section \<open>Data model\<close>

text \<open>
  The repository is a TypeScript library over a transactional key-value store: a balance
  reader (\<^verbatim>\<open>UserService\<close>, src/user/user.ts), a ledger transactor
  (\<^verbatim>\<open>TransactService\<close>) and the facade \<^verbatim>\<open>createTransactFn\<close>
  (both in the second document of src/transact/transact.test.ts, lines 464 to 670).

  Strings of the source are \<open>string\<close>, and a request has the fields its interface
  declares, each a string. A field that a caller left out (the tests of \<^verbatim>\<open>validate\<close>
  build such requests) is the empty string here: validation only tests a field for
  truthiness (\<^verbatim>\<open>!input.userId\<close>), which fails exactly for \<^verbatim>\<open>undefined\<close> and
  \<^verbatim>\<open>""\<close>.
\<close>

subsection \<open>types.ts\<close>

record TConfig =
  DB_USERS_TABLE :: string
  DB_TRANSACTIONS_TABLE :: string
  DEFAULT_BALANCE :: int
  DEFAULT_CURRENCY :: string
  USER_SEED_SIZE :: nat

text \<open>
  \<^verbatim>\<open>enum TransactionType { CREDIT = "credit", DEBIT = "debit" }\<close> is a string enum: at
  run time its members are these two strings, and a field of that type holds a string.
\<close>

definition CREDIT :: string where
  "CREDIT = ''credit''"

definition DEBIT :: string where
  "DEBIT = ''debit''"

record GetUserBalanceInput =
  userId :: string

text \<open>
  \<^verbatim>\<open>interface TransactionInput { idempotentKey; userId; amount; type }\<close>. Every
  \<^verbatim>\<open>TransactionInput\<close> is structurally a \<^verbatim>\<open>GetUserBalanceInput\<close>, so the record
  extends it and \<open>userId\<close> reads both.
\<close>

record TransactionInput = GetUserBalanceInput +
  idempotentKey :: string
  amount :: string
  type :: string

subsection \<open>The store client's values (@aws-sdk/client-dynamodb)\<close>

text \<open>
  An attribute value is \<^verbatim>\<open>{ S: string }\<close> or \<^verbatim>\<open>{ N: string }\<close> (numbers travel
  as text). Reading the member an attribute value does not have gives
  \<^verbatim>\<open>undefined\<close>, here \<open>None\<close>.
\<close>

datatype AttributeValue = S string | N string

fun member_S :: "AttributeValue \<Rightarrow> string option" where
  "member_S (S s) = Some s"
| "member_S (N n) = None"

fun member_N :: "AttributeValue \<Rightarrow> string option" where
  "member_N (N n) = Some n"
| "member_N (S s) = None"

text \<open>An item is an object from attribute names to attribute values; \<open>map_of\<close> reads it.\<close>

type_synonym item = "(string \<times> AttributeValue) list"

text \<open>
  The expressions of a write are text interpreted by the store. The model keeps their
  syntax trees; the source text of each is quoted where the request is built.
\<close>

datatype Operand =
  Path string
  | Placeholder string
  | if_not_exists string Operand

datatype SetValue = Plus Operand Operand | Minus Operand Operand

datatype UpdateExpr = SET string SetValue

datatype ConditionExpr =
  attribute_exists string
  | attribute_not_exists string
  | GreaterEq Operand Operand
  | AND ConditionExpr ConditionExpr

datatype TransactItem =
  Update (TableName: string) (Key: item) (UpdateExpression: UpdateExpr)
    (ExpressionAttributeValues: "(string \<times> AttributeValue) list")
    (ExpressionAttributeNames: "(string \<times> string) list")
    (ConditionExpression: "ConditionExpr option")
  | Put (TableName: string) (PutItem: item) (ConditionExpression: "ConditionExpr option")

datatype Command =
  GetItemCommand string item
  | TransactWriteItemsCommand "TransactItem list"

text \<open>The output of a command; \<^verbatim>\<open>response.Item\<close> is \<^verbatim>\<open>undefined\<close> when no item came back.\<close>

datatype Output = Output (Item: "item option")

datatype CancellationReason =
  CancellationReason (Code: "string option") (ReasonItem: "item option")

text \<open>
  What the client throws: a \<^verbatim>\<open>TransactionCanceledException\<close> with its message and its
  optional \<^verbatim>\<open>CancellationReasons\<close>, or any other exception (name and message).
\<close>

datatype SdkException =
  TransactionCanceledException string "CancellationReason list option"
  | ServiceException string string

text \<open>
  What the library throws: its own error classes, a plain \<^verbatim>\<open>Error\<close> with a message,
  or an exception of the client rethrown as it is (\<open>Thrown\<close>).
\<close>

datatype error =
  InvalidUserIdError
  | UserNotFoundError string
  | InvalidAmountError
  | InvalidIdempotencyKeyError
  | InvalidTransactionTypeError
  | InsufficientBalanceError
  | Error string
  | Thrown SdkException

text \<open>
  \<^verbatim>\<open>client.send(command)\<close> is a step on the state \<open>'s\<close> of the world outside the
  process. An \<^verbatim>\<open>async\<close> function is a state transformer that returns an error or
  a value.
\<close>

type_synonym 's DynamoDB = "Command \<Rightarrow> 's \<Rightarrow> (SdkException + Output) \<times> 's"

type_synonym ('a, 's) async = "'s \<Rightarrow> (error + 'a) \<times> 's"

subsection \<open>config.ts\<close>

definition Config :: TConfig where
  "Config = \<lparr> DB_USERS_TABLE = ''Users'', DB_TRANSACTIONS_TABLE = ''Transactions'',
     DEFAULT_BALANCE = 100, DEFAULT_CURRENCY = ''USD'', USER_SEED_SIZE = 25 \<rparr>"

subsection \<open>Numbers of the host language\<close>

text \<open>
  A JavaScript number is \<^verbatim>\<open>NaN\<close>, an infinity or a finite value. \<^verbatim>\<open>Number(s)\<close>
  is a builtin outside the repository: the functions that call it take it as the
  parameter \<open>Number\<close>.
\<close>

datatype jsnumber = NaN | Finite rat | PosInfinity | NegInfinity

fun isNaN :: "jsnumber \<Rightarrow> bool" where
  "isNaN NaN = True"
| "isNaN (Finite x) = False"
| "isNaN PosInfinity = False"
| "isNaN NegInfinity = False"

text \<open>\<^verbatim>\<open>x <= 0\<close>: false when \<^verbatim>\<open>x\<close> is \<^verbatim>\<open>NaN\<close>.\<close>

fun le_zero :: "jsnumber \<Rightarrow> bool" where
  "le_zero NaN = False"
| "le_zero (Finite x) = (x \<le> 0)"
| "le_zero PosInfinity = False"
| "le_zero NegInfinity = True"

section \<open>The ledger transactor: validation\<close>

text \<open>
  \<^verbatim>\<open>TransactService.validate\<close> (lines 511 to 532). It takes no client and no state:
  it throws or returns.
\<close>

definition validate :: "(string \<Rightarrow> jsnumber) \<Rightarrow> TransactionInput \<Rightarrow> error + unit" where
  "validate Number input =
     (if userId input = [] then Inl (UserNotFoundError (userId input))
      else if idempotentKey input = [] then Inl InvalidIdempotencyKeyError
      else if amount input = [] \<or> isNaN (Number (amount input)) \<or> le_zero (Number (amount input))
        then Inl InvalidAmountError
      else if type input = [] then Inl InvalidTransactionTypeError
      else Inr ())"

section \<open>Rendering numbers\<close>

text \<open>
  \<^verbatim>\<open>Date.now().toString()\<close> and the template literal \<^verbatim>\<open>`${amount}`\<close> render a
  number as text. Both numbers are integers in this program (a clock reading in
  milliseconds, the configured default balance), which print as their decimal digits.
\<close>

definition digit :: "nat \<Rightarrow> char" where
  "digit d = ''0123456789'' ! (d mod 10)"

fun digits :: "nat \<Rightarrow> string" where
  "digits n = (if n < 10 then [digit n] else digits (n div 10) @ [digit n])"

definition toString :: "int \<Rightarrow> string" where
  "toString i = (if i < 0 then CHR ''-'' # digits (nat (- i)) else digits (nat i))"

text \<open>A template literal prints \<^verbatim>\<open>undefined\<close> for a missing value.\<close>

fun template :: "string option \<Rightarrow> string" where
  "template None = ''undefined''"
| "template (Some s) = s"

section \<open>The balance reader (src/user/user.ts)\<close>

text \<open>
  The constructor of \<^verbatim>\<open>UserService\<close> keeps the client, the users table's name and the
  default balance \<^verbatim>\<open>{ amount: DEFAULT_BALANCE, currency: DEFAULT_CURRENCY }\<close> of its
  configuration; the methods below take the client and the configuration instead.
  Writes to the console are left out.
\<close>

definition getUserItem :: "'s DynamoDB \<Rightarrow> TConfig \<Rightarrow> string \<Rightarrow> (item option, 's) async" where
  "getUserItem client config uid s =
     (case client (GetItemCommand (DB_USERS_TABLE config) [(''userId'', S uid)]) s of
        (Inl e, s1) \<Rightarrow> (Inl (Thrown e), s1)
      | (Inr response, s1) \<Rightarrow> (Inr (Item response), s1))"

definition getUserBalance ::
  "'s DynamoDB \<Rightarrow> TConfig \<Rightarrow> 'a GetUserBalanceInput_scheme \<Rightarrow> (string, 's) async" where
  "getUserBalance client config input s =
     (if userId input = [] then (Inl InvalidUserIdError, s)
      else
        (case getUserItem client config (userId input) s of
           (Inl e, s1) \<Rightarrow> (Inl e, s1)
         | (Inr None, s1) \<Rightarrow> (Inl (UserNotFoundError (userId input)), s1)
         | (Inr (Some item), s1) \<Rightarrow>
             (case map_of item ''balance'' of
                None \<Rightarrow>
                  (Inr (toString (DEFAULT_BALANCE config) @ '' '' @ DEFAULT_CURRENCY config), s1)
              | Some balance \<Rightarrow>
                  (Inr (template (member_N balance) @ '' '' @
                     (case Option.bind (map_of item ''currency'') member_S of
                        None \<Rightarrow> DEFAULT_CURRENCY config
                      | Some c \<Rightarrow> if c = [] then DEFAULT_CURRENCY config else c)), s1))))"

section \<open>The ledger transactor: the atomic write\<close>

definition checkExistingTransaction ::
  "'s DynamoDB \<Rightarrow> TConfig \<Rightarrow> string \<Rightarrow> (item option, 's) async" where
  "checkExistingTransaction client config idempotencyKey s =
     (case client (GetItemCommand (DB_TRANSACTIONS_TABLE config)
                     [(''idempotencyKey'', S idempotencyKey)]) s of
        (Inl e, s1) \<Rightarrow> (Inl (Thrown e), s1)
      | (Inr response, s1) \<Rightarrow> (Inr (Item response), s1))"

text \<open>\<^verbatim>\<open>"SET #balance = if_not_exists(#balance, :zero) + :amount"\<close>, no condition.\<close>

definition creditUserBalance :: "TConfig \<Rightarrow> TransactionInput \<Rightarrow> TransactItem" where
  "creditUserBalance config input =
     Update (DB_USERS_TABLE config) [(''userId'', S (userId input))]
       (SET ''#balance''
          (Plus (if_not_exists ''#balance'' (Placeholder '':zero'')) (Placeholder '':amount'')))
       [('':amount'', N (amount input)), ('':zero'', N ''0'')]
       [(''#balance'', ''balance'')]
       None"

text \<open>
  \<^verbatim>\<open>"SET #balance = #balance - :amount"\<close> under the condition
  \<^verbatim>\<open>"attribute_exists(#balance) AND #balance >= :amount"\<close>.
\<close>

definition debitUserBalance :: "TConfig \<Rightarrow> TransactionInput \<Rightarrow> TransactItem" where
  "debitUserBalance config input =
     Update (DB_USERS_TABLE config) [(''userId'', S (userId input))]
       (SET ''#balance'' (Minus (Path ''#balance'') (Placeholder '':amount'')))
       [('':amount'', N (amount input))]
       [(''#balance'', ''balance'')]
       (Some (AND (attribute_exists ''#balance'')
                  (GreaterEq (Path ''#balance'') (Placeholder '':amount''))))"

text \<open>
  The new ledger record, under the condition
  \<^verbatim>\<open>"attribute_not_exists(idempotencyKey)"\<close>; \<open>now\<close> is the reading of
  \<^verbatim>\<open>Date.now()\<close>.
\<close>

definition insertNewTransaction :: "int \<Rightarrow> TConfig \<Rightarrow> TransactionInput \<Rightarrow> TransactItem" where
  "insertNewTransaction now config input =
     Put (DB_TRANSACTIONS_TABLE config)
       [(''idempotencyKey'', S (idempotentKey input)),
        (''userId'', S (userId input)),
        (''amount'', N (amount input)),
        (''type'', S (type input)),
        (''timestamp'', N (toString now))]
       (Some (attribute_not_exists ''idempotencyKey''))"

text \<open>\<^verbatim>\<open>error.CancellationReasons?.[0]?.Code\<close>\<close>

definition firstCode :: "CancellationReason list option \<Rightarrow> string option" where
  "firstCode reasons =
     (case reasons of None \<Rightarrow> None | Some [] \<Rightarrow> None | Some (reason # rest) \<Rightarrow> Code reason)"

text \<open>
  \<^verbatim>\<open>error.CancellationReasons?.some((reason) => reason.Code === "ConditionalCheckFailed"
  && reason.Item?.idempotencyKey?.S === input.idempotentKey)\<close>; \<^verbatim>\<open>undefined\<close> is falsy.
\<close>

definition idempotencyConflict :: "CancellationReason list option \<Rightarrow> TransactionInput \<Rightarrow> bool" where
  "idempotencyConflict reasons input =
     (case reasons of
        None \<Rightarrow> False
      | Some rs \<Rightarrow>
          list_ex (\<lambda>reason.
              Code reason = Some ''ConditionalCheckFailed'' \<and>
              Option.bind (ReasonItem reason)
                (\<lambda>i. Option.bind (map_of i ''idempotencyKey'') member_S)
              = Some (idempotentKey input)) rs)"

text \<open>
  \<^verbatim>\<open>TransactService.transact\<close> (lines 535 to 640): one \<^verbatim>\<open>send\<close> of the atomic
  write, then the interpretation of its failure.
\<close>

definition transact ::
  "int \<Rightarrow> 's DynamoDB \<Rightarrow> TConfig \<Rightarrow> TransactionInput \<Rightarrow> (unit, 's) async" where
  "transact now client config input s =
     (let isCredit = (type input = CREDIT) in
      case client (TransactWriteItemsCommand
             [if isCredit then creditUserBalance config input
              else debitUserBalance config input,
              insertNewTransaction now config input]) s of
        (Inr response, s1) \<Rightarrow> (Inr (), s1)
      | (Inl e, s1) \<Rightarrow>
          (case e of
             TransactionCanceledException message reasons \<Rightarrow>
               if \<not> isCredit \<and> firstCode reasons = Some ''ConditionalCheckFailed''
               then (Inl InsufficientBalanceError, s1)
               else if idempotencyConflict reasons input
               then
                 (case checkExistingTransaction client config (idempotentKey input) s1 of
                    (Inl e2, s2) \<Rightarrow> (Inl e2, s2)
                  | (Inr existingTransaction, s2) \<Rightarrow>
                      if existingTransaction \<noteq> None then (Inr (), s2)
                      else (Inl (Error (''Transaction failed: '' @ message)), s2))
               else (Inl (Error (''Transaction failed: '' @ message)), s1)
           | ServiceException name message \<Rightarrow> (Inl (Thrown e), s1)))"

section \<open>The transaction orchestrator\<close>

text \<open>\<^verbatim>\<open>createTransactFn\<close> (lines 644 to 670); both services are built on \<open>Config\<close>.\<close>

definition createTransactFn ::
  "(string \<Rightarrow> jsnumber) \<Rightarrow> int \<Rightarrow> 's DynamoDB \<Rightarrow> TransactionInput \<Rightarrow> (unit, 's) async" where
  "createTransactFn Number now client input s =
     (case validate Number input of
        Inl e \<Rightarrow> (Inl e, s)
      | Inr ok \<Rightarrow>
          (case getUserItem client Config (userId input) s of
             (Inl e, s1) \<Rightarrow> (Inl e, s1)
           | (Inr user, s1) \<Rightarrow>
               if user = None then (Inl (UserNotFoundError (userId input)), s1)
               else
                 (case checkExistingTransaction client Config (idempotentKey input) s1 of
                    (Inl e, s2) \<Rightarrow> (Inl e, s2)
                  | (Inr existing, s2) \<Rightarrow>
                      if existing \<noteq> None then (Inr (), s2)
                      else transact now client Config input s2)))"

section \<open>Observing the commands sent\<close>

text \<open>
  A client that also records each command it is sent, in order. Running a function on
  \<open>logged client\<close> from an empty record gives the sequence of its calls to the store.
\<close>

definition logged :: "'s DynamoDB \<Rightarrow> ('s \<times> Command list) DynamoDB" where
  "logged client command = (\<lambda>(s, sent).
     case client command s of (r, s1) \<Rightarrow> (r, (s1, sent @ [command])))"

fun isWrite :: "Command \<Rightarrow> bool" where
  "isWrite (TransactWriteItemsCommand items) = True"
| "isWrite (GetItemCommand table key) = False"

text \<open>The three commands the library sends, named for the statements below.\<close>

definition userRead :: "TConfig \<Rightarrow> string \<Rightarrow> Command" where
  "userRead config uid = GetItemCommand (DB_USERS_TABLE config) [(''userId'', S uid)]"

definition ledgerRead :: "TConfig \<Rightarrow> TransactionInput \<Rightarrow> Command" where
  "ledgerRead config input =
     GetItemCommand (DB_TRANSACTIONS_TABLE config) [(''idempotencyKey'', S (idempotentKey input))]"

definition atomicWrite :: "int \<Rightarrow> TConfig \<Rightarrow> TransactionInput \<Rightarrow> Command" where
  "atomicWrite now config input =
     TransactWriteItemsCommand
       [if type input = CREDIT then creditUserBalance config input
        else debitUserBalance config input,
        insertNewTransaction now config input]"

section \<open>Concrete readings of digit strings\<close>

text \<open>
  On a string of decimal digits \<^verbatim>\<open>Number\<close> gives the number the digits denote, and
  on the empty string it gives 0. \<open>NumberOfDigits\<close> is that part of the builtin, for
  running the functions on concrete requests. It answers \<^verbatim>\<open>NaN\<close> on every other
  string; the only such string it is applied to below is \<^verbatim>\<open>"not-a-number"\<close>, where
  that is the builtin's answer too.
\<close>

definition digitOf :: "char \<Rightarrow> nat option" where
  "digitOf c = map_of
     [(CHR ''0'', 0), (CHR ''1'', 1), (CHR ''2'', 2), (CHR ''3'', 3), (CHR ''4'', 4),
      (CHR ''5'', 5), (CHR ''6'', 6), (CHR ''7'', 7), (CHR ''8'', 8), (CHR ''9'', 9)] c"

fun digitsValue :: "nat \<Rightarrow> string \<Rightarrow> nat option" where
  "digitsValue acc [] = Some acc"
| "digitsValue acc (c # cs) =
     (case digitOf c of None \<Rightarrow> None | Some d \<Rightarrow> digitsValue (10 * acc + d) cs)"

definition NumberOfDigits :: "string \<Rightarrow> jsnumber" where
  "NumberOfDigits s = (case digitsValue 0 s of None \<Rightarrow> NaN | Some n \<Rightarrow> Finite (of_nat n))"

section \<open>The transactional store\<close>

text \<open>
  Modelled from the spec: the transactional store is an external service, not code of the
  repository. Sections 4.2 and 6 of the specification describe what the library relies
  on: two keyed collections, a point read, and an atomic write of several operations,
  each under an optional guard, that commits all of them or none and reports, for each
  operation by its index, whether its guard failed. The model is a sequential store with
  exactly that interface; it evaluates the expressions the library sends.

  The store keeps numbers by value. How it reads a number written as text (\<open>readN\<close>),
  how it writes one (\<open>showN\<close>) and whether a failed guard reports the item it found
  (\<open>reportsOld\<close>) are parameters of the model.
\<close>

datatype val = VS string | VN rat

type_synonym row = "(string \<times> val) list"

record Store =
  users :: "string \<rightharpoonup> row"
  transactions :: "string \<rightharpoonup> row"

record StoreParams =
  readN :: "string \<Rightarrow> rat option"
  showN :: "rat \<Rightarrow> string"
  reportsOld :: bool

text \<open>
  The key schemas of src/schema/create.ts: the users table is keyed by \<^verbatim>\<open>userId\<close>,
  the transactions table by \<^verbatim>\<open>idempotencyKey\<close>, both strings.
\<close>

definition keyAttribute :: "string \<Rightarrow> string option" where
  "keyAttribute tableName =
     (if tableName = DB_USERS_TABLE Config then Some ''userId''
      else if tableName = DB_TRANSACTIONS_TABLE Config then Some ''idempotencyKey''
      else None)"

definition table :: "Store \<Rightarrow> string \<Rightarrow> (string \<rightharpoonup> row)" where
  "table st tableName =
     (if tableName = DB_USERS_TABLE Config then users st else transactions st)"

definition setRow :: "string \<Rightarrow> string \<Rightarrow> row \<Rightarrow> Store \<Rightarrow> Store" where
  "setRow tableName k r st =
     (if tableName = DB_USERS_TABLE Config then st \<lparr> users := (users st)(k \<mapsto> r) \<rparr>
      else st \<lparr> transactions := (transactions st)(k \<mapsto> r) \<rparr>)"

fun stored :: "StoreParams \<Rightarrow> AttributeValue \<Rightarrow> val option" where
  "stored P (S s) = Some (VS s)"
| "stored P (N n) = map_option VN (readN P n)"

fun wire :: "StoreParams \<Rightarrow> val \<Rightarrow> AttributeValue" where
  "wire P (VS s) = S s"
| "wire P (VN x) = N (showN P x)"

text \<open>An item is storable when each of its numbers can be read.\<close>

definition storedItem :: "StoreParams \<Rightarrow> item \<Rightarrow> row option" where
  "storedItem P it = those (map (\<lambda>(a, v). map_option (Pair a) (stored P v)) it)"

definition wireItem :: "StoreParams \<Rightarrow> row \<Rightarrow> item" where
  "wireItem P r = map (\<lambda>(a, v). (a, wire P v)) r"

text \<open>A key names exactly the key attribute, with a non-empty string.\<close>

fun keyOf :: "string \<Rightarrow> item \<Rightarrow> string option" where
  "keyOf ka [(a, S k)] = (if a = ka \<and> k \<noteq> [] then Some k else None)"
| "keyOf ka other = None"

text \<open>
  A name starting with \<^verbatim>\<open>#\<close> stands for the attribute that
  \<^verbatim>\<open>ExpressionAttributeNames\<close> gives it; any other name is the attribute itself.
\<close>

definition resolve :: "(string \<times> string) list \<Rightarrow> string \<Rightarrow> string option" where
  "resolve names p = (if p \<noteq> [] \<and> hd p = CHR ''#'' then map_of names p else Some p)"

text \<open>
  The value of an operand in a row: \<open>None\<close> when the request is malformed (an undefined
  name or placeholder, a number that cannot be read), \<open>Some None\<close> when the attribute is
  absent from the row.
\<close>

fun operandValue ::
  "StoreParams \<Rightarrow> (string \<times> string) list \<Rightarrow> (string \<times> AttributeValue) list \<Rightarrow> row \<Rightarrow>
   Operand \<Rightarrow> val option option" where
  "operandValue P names vals r (Path p) = map_option (map_of r) (resolve names p)"
| "operandValue P names vals r (Placeholder v) =
     (case map_of vals v of None \<Rightarrow> None | Some a \<Rightarrow> map_option Some (stored P a))"
| "operandValue P names vals r (if_not_exists p d) =
     (case (resolve names p, operandValue P names vals r d) of
        (Some a, Some dv) \<Rightarrow> (case map_of r a of Some x \<Rightarrow> Some (Some x) | None \<Rightarrow> Some dv)
      | other \<Rightarrow> None)"

text \<open>
  Arithmetic is on two numbers; \<open>Some None\<close> when an operand is absent or not a number.
\<close>

definition arith ::
  "(rat \<Rightarrow> rat \<Rightarrow> rat) \<Rightarrow> val option option \<Rightarrow> val option option \<Rightarrow> val option option" where
  "arith f x y =
     (case (x, y) of
        (Some a, Some b) \<Rightarrow>
          Some (case (a, b) of (Some (VN m), Some (VN n)) \<Rightarrow> Some (VN (f m n)) | other \<Rightarrow> None)
      | other \<Rightarrow> None)"

fun setValue ::
  "StoreParams \<Rightarrow> (string \<times> string) list \<Rightarrow> (string \<times> AttributeValue) list \<Rightarrow> row \<Rightarrow>
   SetValue \<Rightarrow> val option option" where
  "setValue P names vals r (Plus a b) =
     arith (+) (operandValue P names vals r a) (operandValue P names vals r b)"
| "setValue P names vals r (Minus a b) =
     arith (-) (operandValue P names vals r a) (operandValue P names vals r b)"

text \<open>
  Whether a guard holds in a row (\<open>None\<close>: malformed). The library only compares
  numbers; a comparison of anything else is false here.
\<close>

fun conditionHolds ::
  "StoreParams \<Rightarrow> (string \<times> string) list \<Rightarrow> (string \<times> AttributeValue) list \<Rightarrow> row \<Rightarrow>
   ConditionExpr \<Rightarrow> bool option" where
  "conditionHolds P names vals r (attribute_exists p) =
     map_option (\<lambda>a. map_of r a \<noteq> None) (resolve names p)"
| "conditionHolds P names vals r (attribute_not_exists p) =
     map_option (\<lambda>a. map_of r a = None) (resolve names p)"
| "conditionHolds P names vals r (GreaterEq a b) =
     (case (operandValue P names vals r a, operandValue P names vals r b) of
        (Some x, Some y) \<Rightarrow>
          Some (case (x, y) of (Some (VN m), Some (VN n)) \<Rightarrow> n \<le> m | other \<Rightarrow> False)
      | other \<Rightarrow> None)"
| "conditionHolds P names vals r (AND c d) =
     (case (conditionHolds P names vals r c, conditionHolds P names vals r d) of
        (Some x, Some y) \<Rightarrow> Some (x \<and> y)
      | other \<Rightarrow> None)"

definition guardHolds ::
  "StoreParams \<Rightarrow> (string \<times> string) list \<Rightarrow> (string \<times> AttributeValue) list \<Rightarrow> row \<Rightarrow>
   ConditionExpr option \<Rightarrow> bool option" where
  "guardHolds P names vals r guard =
     (case guard of None \<Rightarrow> Some True | Some c \<Rightarrow> conditionHolds P names vals r c)"

text \<open>The item found under a key of a table: the row kept there, which holds its key.\<close>

definition itemAt :: "string \<Rightarrow> string \<Rightarrow> row option \<Rightarrow> row option" where
  "itemAt ka k kept = map_option (AList.update ka (VS k)) kept"

text \<open>
  What one operation of an atomic write comes to in a state of the store: the request is
  malformed; or the operation is rejected, with a code and the row found under its key;
  or it is accepted, with the table, the key and the row to be written. An update of a
  key that has no row starts from a row holding the key alone.
\<close>

datatype verdict =
  Malformed
  | Rejected string "row option"
  | Accepted string string row

fun evalItem :: "StoreParams \<Rightarrow> Store \<Rightarrow> TransactItem \<Rightarrow> verdict" where
  "evalItem P st (Update tableName key (SET p sv) vals names guard) =
     (case keyAttribute tableName of
        None \<Rightarrow> Malformed
      | Some ka \<Rightarrow>
          (case (keyOf ka key, resolve names p) of
             (Some k, Some a) \<Rightarrow>
               (let old = itemAt ka k (table st tableName k);
                    r = (case old of None \<Rightarrow> [] | Some r0 \<Rightarrow> r0)
                in case (guardHolds P names vals r guard, setValue P names vals r sv) of
                     (Some g, Some v) \<Rightarrow>
                       if \<not> g then Rejected ''ConditionalCheckFailed'' old
                       else (case v of
                               None \<Rightarrow> Rejected ''ValidationError'' old
                             | Some x \<Rightarrow>
                                 Accepted tableName k
                                   (AList.update a x
                                      (case old of None \<Rightarrow> [(ka, VS k)] | Some r0 \<Rightarrow> r0)))
                   | other \<Rightarrow> Malformed)
           | other \<Rightarrow> Malformed))"
| "evalItem P st (Put tableName it guard) =
     (case (keyAttribute tableName, storedItem P it) of
        (Some ka, Some new) \<Rightarrow>
          (case map_of new ka of
             Some (VS k) \<Rightarrow>
               if k = [] then Malformed
               else
                 (let old = itemAt ka k (table st tableName k);
                      r = (case old of None \<Rightarrow> [] | Some r0 \<Rightarrow> r0)
                  in case guardHolds P [] [] r guard of
                       None \<Rightarrow> Malformed
                     | Some g \<Rightarrow>
                         if g then Accepted tableName k new
                         else Rejected ''ConditionalCheckFailed'' old)
           | other \<Rightarrow> Malformed)
      | other \<Rightarrow> Malformed)"

fun isMalformed :: "verdict \<Rightarrow> bool" where
  "isMalformed Malformed = True"
| "isMalformed (Rejected code old) = False"
| "isMalformed (Accepted tableName k r) = False"

fun isAccepted :: "verdict \<Rightarrow> bool" where
  "isAccepted (Accepted tableName k r) = True"
| "isAccepted Malformed = False"
| "isAccepted (Rejected code old) = False"

fun reasonOf :: "StoreParams \<Rightarrow> verdict \<Rightarrow> CancellationReason" where
  "reasonOf P (Rejected code old) =
     CancellationReason (Some code)
       (if reportsOld P then map_option (wireItem P) old else None)"
| "reasonOf P (Accepted tableName k r) = CancellationReason (Some ''None'') None"
| "reasonOf P Malformed = CancellationReason (Some ''ValidationError'') None"

fun commit :: "Store \<Rightarrow> verdict \<Rightarrow> Store" where
  "commit st (Accepted tableName k r) = setRow tableName k r st"
| "commit st Malformed = st"
| "commit st (Rejected code old) = st"

definition cancelMessage :: string where
  "cancelMessage = ''Transaction cancelled, please refer cancellation reasons for specific reasons''"

text \<open>
  The store as a client. A read leaves the state as it is. An atomic write evaluates
  every operation in the state before the write: a malformed request is refused as a
  whole; when every operation is accepted all rows are written; otherwise nothing is
  written and the cancellation lists one reason per operation, in order.
\<close>

definition store :: "StoreParams \<Rightarrow> Store DynamoDB" where
  "store P command st =
     (case command of
        GetItemCommand tableName key \<Rightarrow>
          (case keyAttribute tableName of
             None \<Rightarrow> (Inl (ServiceException ''ResourceNotFoundException'' ''Table not found''), st)
           | Some ka \<Rightarrow>
               (case keyOf ka key of
                  None \<Rightarrow> (Inl (ServiceException ''ValidationException'' ''Invalid key''), st)
                | Some k \<Rightarrow>
                    (Inr (Output (map_option (wireItem P) (itemAt ka k (table st tableName k)))),
                     st)))
      | TransactWriteItemsCommand ops \<Rightarrow>
          (let vs = map (evalItem P st) ops in
           if list_ex isMalformed vs
           then (Inl (ServiceException ''ValidationException'' ''Invalid request''), st)
           else if list_all isAccepted vs
           then (Inr (Output None), foldl commit st vs)
           else (Inl (TransactionCanceledException cancelMessage (Some (map (reasonOf P) vs))), st)))"

text \<open>The balance the store holds for a user, when it is a number.\<close>

definition storedBalance :: "Store \<Rightarrow> string \<Rightarrow> rat option" where
  "storedBalance st uid =
     (case users st uid of
        None \<Rightarrow> None
      | Some r \<Rightarrow> (case map_of r ''balance'' of Some (VN b) \<Rightarrow> Some b | other \<Rightarrow> None))"

text \<open>A reading of digit strings for the store, for running it on concrete requests.\<close>

definition digitsStore :: StoreParams where
  "digitsStore =
     \<lparr> readN = (\<lambda>s. if s = [] then None else map_option of_nat (digitsValue 0 s)),
       showN = (\<lambda>x. toString \<lfloor>x\<rfloor>),
       reportsOld = False \<rparr>"

section \<open>Invariants of the store and agreement of the two readings of a number\<close>

text \<open>Every balance the store holds as a number is at least 0.\<close>

definition nonNegativeBalances :: "Store \<Rightarrow> bool" where
  "nonNegativeBalances st = (\<forall>uid b. storedBalance st uid = Some b \<longrightarrow> 0 \<le> b)"

text \<open>
  Validation reads the amount with \<^verbatim>\<open>Number\<close>, the store reads it by itself. The two
  agree on signs when every text the store reads as a number that is at most 0 is, for
  \<^verbatim>\<open>Number\<close>, not a number or at most 0.
\<close>

definition signAgrees :: "(string \<Rightarrow> jsnumber) \<Rightarrow> StoreParams \<Rightarrow> bool" where
  "signAgrees Number P =
     (\<forall>s x. readN P s = Some x \<and> x \<le> 0 \<longrightarrow> isNaN (Number s) \<or> le_zero (Number s))"

section \<open>Concrete requests, clients and states\<close>

text \<open>
  A client that answers from a prepared queue of outcomes, one per command, as the mocked
  \<^verbatim>\<open>send\<close> of the test suites does; its state is the rest of the queue.
\<close>

fun scripted :: "(SdkException + Output) list DynamoDB" where
  "scripted command [] = (Inl (ServiceException ''Error'' ''no outcome prepared''), [])"
| "scripted command (outcome # rest) = (outcome, rest)"

text \<open>The requests and the ledger record of src/transact/transact.test.ts.\<close>

definition validInput :: TransactionInput where
  "validInput =
     \<lparr> userId = ''user123'', idempotentKey = ''key123'', amount = ''100'', type = CREDIT \<rparr>"

definition debitInput :: TransactionInput where
  "debitInput = validInput \<lparr> type := DEBIT \<rparr>"

definition mockTransaction :: item where
  "mockTransaction =
     [(''idempotencyKey'', S ''key123''), (''userId'', S ''user123''),
      (''amount'', N ''100''), (''type'', S CREDIT)]"

text \<open>
  The scenarios of section 8 of the specification and of src/transact/index.ts: user 11
  has no balance, user 9 has the balance 5, and the ledger is empty.
\<close>

definition exampleStore :: Store where
  "exampleStore =
     \<lparr> users = [''11'' \<mapsto> [(''userId'', VS ''11'')],
                ''9'' \<mapsto> [(''userId'', VS ''9''), (''balance'', VN 5)]],
       transactions = Map.empty \<rparr>"

definition credit11 :: TransactionInput where
  "credit11 = \<lparr> userId = ''11'', idempotentKey = ''1'', amount = ''10'', type = CREDIT \<rparr>"

definition debit9 :: TransactionInput where
  "debit9 = \<lparr> userId = ''9'', idempotentKey = ''5'', amount = ''10'', type = DEBIT \<rparr>"

section \<open>Properties\<close>

subsection \<open>Validation\<close>

text \<open>
  C6, as the specification states it, fails in its last check: a type that is neither
  \<open>CREDIT\<close> nor \<open>DEBIT\<close> passes validation as long as it is not empty. The request
  below has the type \<^verbatim>\<open>"refund"\<close> and is accepted.
\<close>

theorem validate_unknown_type_passes:
  "validate NumberOfDigits
     \<lparr> userId = ''user123'', idempotentKey = ''key123'', amount = ''100'', type = ''refund'' \<rparr>
     = Inr ()
   \<and> ''refund'' \<noteq> CREDIT \<and> ''refund'' \<noteq> DEBIT"
  by (simp add: validate_def NumberOfDigits_def digitOf_def CREDIT_def DEBIT_def)

text \<open>
  C6 (amended): \<open>validate\<close> is a function of the request alone (it has no client and no
  state to act on) and checks in this order, the first violation deciding the error:
  an empty \<open>userId\<close> gives \<open>UserNotFoundError\<close>; then an empty \<open>idempotentKey\<close> gives
  \<open>InvalidIdempotencyKeyError\<close>; then an amount that is empty, not a number or at most 0
  gives \<open>InvalidAmountError\<close>; then a missing (empty) type gives
  \<open>InvalidTransactionTypeError\<close>; every other request passes, whatever its non-empty type.
\<close>

theorem validate_order:
  "(userId input = [] \<longrightarrow> validate Number input = Inl (UserNotFoundError []))
   \<and> (userId input \<noteq> [] \<and> idempotentKey input = [] \<longrightarrow>
        validate Number input = Inl InvalidIdempotencyKeyError)
   \<and> (userId input \<noteq> [] \<and> idempotentKey input \<noteq> [] \<and>
        (amount input = [] \<or> isNaN (Number (amount input)) \<or> le_zero (Number (amount input))) \<longrightarrow>
        validate Number input = Inl InvalidAmountError)
   \<and> (userId input \<noteq> [] \<and> idempotentKey input \<noteq> [] \<and>
        \<not> (amount input = [] \<or> isNaN (Number (amount input)) \<or> le_zero (Number (amount input))) \<and>
        type input = [] \<longrightarrow>
        validate Number input = Inl InvalidTransactionTypeError)
   \<and> (userId input \<noteq> [] \<and> idempotentKey input \<noteq> [] \<and>
        \<not> (amount input = [] \<or> isNaN (Number (amount input)) \<or> le_zero (Number (amount input))) \<and>
        type input \<noteq> [] \<longrightarrow>
        validate Number input = Inr ())"
  by (simp add: validate_def)

theorem validate_order_witness:
  "validate NumberOfDigits
     \<lparr> userId = [], idempotentKey = [], amount = ''0'', type = [] \<rparr>
     = Inl (UserNotFoundError [])
   \<and> validate NumberOfDigits
     \<lparr> userId = ''user123'', idempotentKey = [], amount = ''0'', type = [] \<rparr>
     = Inl InvalidIdempotencyKeyError
   \<and> validate NumberOfDigits
     \<lparr> userId = ''user123'', idempotentKey = ''key123'', amount = ''0'', type = [] \<rparr>
     = Inl InvalidAmountError
   \<and> validate NumberOfDigits
     \<lparr> userId = ''user123'', idempotentKey = ''key123'', amount = ''not-a-number'', type = CREDIT \<rparr>
     = Inl InvalidAmountError
   \<and> validate NumberOfDigits
     \<lparr> userId = ''user123'', idempotentKey = ''key123'', amount = ''100'', type = [] \<rparr>
     = Inl InvalidTransactionTypeError
   \<and> validate NumberOfDigits
     \<lparr> userId = ''user123'', idempotentKey = ''key123'', amount = ''100'', type = CREDIT \<rparr>
     = Inr ()"
  using
    validate_order [of "\<lparr> userId = [], idempotentKey = [], amount = ''0'', type = [] \<rparr>"
      NumberOfDigits]
    validate_order [of "\<lparr> userId = ''user123'', idempotentKey = [], amount = ''0'', type = [] \<rparr>"
      NumberOfDigits]
    validate_order [of
      "\<lparr> userId = ''user123'', idempotentKey = ''key123'', amount = ''0'', type = [] \<rparr>"
      NumberOfDigits]
    validate_order [of
      "\<lparr> userId = ''user123'', idempotentKey = ''key123'', amount = ''not-a-number'',
         type = CREDIT \<rparr>"
      NumberOfDigits]
    validate_order [of
      "\<lparr> userId = ''user123'', idempotentKey = ''key123'', amount = ''100'', type = [] \<rparr>"
      NumberOfDigits]
    validate_order [of
      "\<lparr> userId = ''user123'', idempotentKey = ''key123'', amount = ''100'', type = CREDIT \<rparr>"
      NumberOfDigits]
  by (simp add: NumberOfDigits_def digitOf_def CREDIT_def)

subsection \<open>The balance reader\<close>

lemma logged_step:
  "client command s = (r, s1) \<Longrightarrow> logged client command (s, sent) = (r, (s1, sent @ [command]))"
  by (simp add: logged_def)

text \<open>
  C9: \<open>getUserBalance\<close> fails with \<open>InvalidUserIdError\<close> on an empty \<open>userId\<close>, before
  any command is sent; otherwise it sends one read of the users table and nothing else
  (no write), and fails with \<open>UserNotFoundError\<close> when no item comes back, returns the
  configured default amount and the default currency when the item has no balance, and
  returns the stored balance and the default currency when the item has a balance but no
  currency.
\<close>

theorem getUserBalance_cases:
  "(userId input = [] \<longrightarrow>
      getUserBalance (logged client) config input (s, []) = (Inl InvalidUserIdError, (s, [])))
   \<and> (userId input \<noteq> [] \<and>
       client (userRead config (userId input)) s = (Inr (Output None), s1) \<longrightarrow>
      getUserBalance (logged client) config input (s, []) =
        (Inl (UserNotFoundError (userId input)), (s1, [userRead config (userId input)])))
   \<and> (userId input \<noteq> [] \<and>
       client (userRead config (userId input)) s = (Inr (Output (Some user)), s1) \<and>
       map_of user ''balance'' = None \<longrightarrow>
      getUserBalance (logged client) config input (s, []) =
        (Inr (toString (DEFAULT_BALANCE config) @ '' '' @ DEFAULT_CURRENCY config),
         (s1, [userRead config (userId input)])))
   \<and> (userId input \<noteq> [] \<and>
       client (userRead config (userId input)) s = (Inr (Output (Some user)), s1) \<and>
       map_of user ''balance'' = Some (N balance) \<and> map_of user ''currency'' = None \<longrightarrow>
      getUserBalance (logged client) config input (s, []) =
        (Inr (balance @ '' '' @ DEFAULT_CURRENCY config),
         (s1, [userRead config (userId input)])))"
  by (auto simp add: getUserBalance_def getUserItem_def userRead_def logged_def)

theorem getUserBalance_cases_witness:
  "getUserBalance (logged scripted) Config \<lparr> userId = [] \<rparr> ([], []) =
     (Inl InvalidUserIdError, ([], []))
   \<and> getUserBalance (logged scripted) Config \<lparr> userId = ''nonexistentUser'' \<rparr>
       ([Inr (Output None)], []) =
     (Inl (UserNotFoundError ''nonexistentUser''), ([], [userRead Config ''nonexistentUser'']))
   \<and> getUserBalance (logged scripted) Config \<lparr> userId = ''user123'' \<rparr>
       ([Inr (Output (Some []))], []) =
     (Inr ''100 USD'', ([], [userRead Config ''user123'']))
   \<and> getUserBalance (logged scripted) Config \<lparr> userId = ''user123'' \<rparr>
       ([Inr (Output (Some [(''balance'', N ''200'')]))], []) =
     (Inr ''200 USD'', ([], [userRead Config ''user123'']))"
  using
    getUserBalance_cases [where input = "\<lparr> userId = [] \<rparr>" and client = scripted
      and config = Config and s = "[]"]
    getUserBalance_cases [where input = "\<lparr> userId = ''nonexistentUser'' \<rparr>"
      and client = scripted and config = Config and s = "[Inr (Output None)]" and ?s1.0 = "[]"]
    getUserBalance_cases [where input = "\<lparr> userId = ''user123'' \<rparr>"
      and client = scripted and config = Config and s = "[Inr (Output (Some []))]"
      and ?s1.0 = "[]" and user = "[]"]
    getUserBalance_cases [where input = "\<lparr> userId = ''user123'' \<rparr>"
      and client = scripted and config = Config
      and s = "[Inr (Output (Some [(''balance'', N ''200'')]))]"
      and ?s1.0 = "[]" and user = "[(''balance'', N ''200'')]" and balance = "''200''"]
  by (simp add: Config_def toString_def digit_def)

subsection \<open>The atomic write and its failures, against any client\<close>

lemma transact_debit_guard:
  assumes "client (atomicWrite now config input) s =
      (Inl (TransactionCanceledException message reasons), s1)"
    and "type input \<noteq> CREDIT"
    and "firstCode reasons = Some ''ConditionalCheckFailed''"
  shows "transact now client config input s = (Inl InsufficientBalanceError, s1)"
  using assms by (simp add: transact_def atomicWrite_def)

lemma transact_credit_never_insufficient:
  assumes "type input = CREDIT"
  shows "fst (transact now client config input s) \<noteq> Inl InsufficientBalanceError"
  using assms
  by (auto simp add: transact_def checkExistingTransaction_def Let_def
      split: prod.splits sum.splits SdkException.splits)

text \<open>
  C1: when the store cancels the atomic write of a request that is not a credit (a
  \<open>DEBIT\<close>) and the reason of the first operation, the balance update, is a failed
  condition, \<open>transact\<close> fails with \<open>InsufficientBalanceError\<close> and sends nothing more.
  A \<open>CREDIT\<close> request never fails with \<open>InsufficientBalanceError\<close>, whatever the store
  answers.
\<close>

theorem transact_insufficient_balance:
  "(type input \<noteq> CREDIT \<and>
    client (atomicWrite now config input) s =
      (Inl (TransactionCanceledException message reasons), s1) \<and>
    firstCode reasons = Some ''ConditionalCheckFailed'' \<longrightarrow>
      transact now (logged client) config input (s, []) =
        (Inl InsufficientBalanceError, (s1, [atomicWrite now config input])))
   \<and> (type input = CREDIT \<longrightarrow>
        fst (transact now client config input s) \<noteq> Inl InsufficientBalanceError)"
proof (intro conjI impI)
  assume a: "type input \<noteq> CREDIT \<and>
    client (atomicWrite now config input) s =
      (Inl (TransactionCanceledException message reasons), s1) \<and>
    firstCode reasons = Some ''ConditionalCheckFailed''"
  then have "logged client (atomicWrite now config input) (s, []) =
      (Inl (TransactionCanceledException message reasons), (s1, [atomicWrite now config input]))"
    by (simp add: logged_step)
  then show "transact now (logged client) config input (s, []) =
        (Inl InsufficientBalanceError, (s1, [atomicWrite now config input]))"
    using a by (simp add: transact_debit_guard)
next
  assume "type input = CREDIT"
  then show "fst (transact now client config input s) \<noteq> Inl InsufficientBalanceError"
    by (rule transact_credit_never_insufficient)
qed

theorem transact_insufficient_balance_witness:
  "DEBIT \<noteq> CREDIT
   \<and> transact 1700000000000 (logged scripted) Config debitInput
       ([Inl (TransactionCanceledException ''Transaction cancelled''
            (Some [CancellationReason (Some ''ConditionalCheckFailed'') None,
                   CancellationReason (Some ''None'') None]))], []) =
     (Inl InsufficientBalanceError, ([], [atomicWrite 1700000000000 Config debitInput]))
   \<and> fst (transact 1700000000000 scripted Config validInput
       [Inl (TransactionCanceledException ''Transaction cancelled''
            (Some [CancellationReason (Some ''ConditionalCheckFailed'') None,
                   CancellationReason (Some ''None'') None]))])
     \<noteq> Inl InsufficientBalanceError"
  using
    transact_insufficient_balance [where input = debitInput and client = scripted
      and now = "1700000000000" and config = Config
      and s = "[Inl (TransactionCanceledException ''Transaction cancelled''
            (Some [CancellationReason (Some ''ConditionalCheckFailed'') None,
                   CancellationReason (Some ''None'') None]))]"
      and message = "''Transaction cancelled''"
      and reasons = "Some [CancellationReason (Some ''ConditionalCheckFailed'') None,
                   CancellationReason (Some ''None'') None]"
      and ?s1.0 = "[]"]
    transact_insufficient_balance [where input = validInput and client = scripted
      and now = "1700000000000" and config = Config
      and s = "[Inl (TransactionCanceledException ''Transaction cancelled''
            (Some [CancellationReason (Some ''ConditionalCheckFailed'') None,
                   CancellationReason (Some ''None'') None]))]"]
  by (simp add: debitInput_def validInput_def DEBIT_def CREDIT_def firstCode_def)

lemma conflict_reported:
  assumes "1 < length rs"
    and "Code (rs ! 1) = Some ''ConditionalCheckFailed''"
    and "ReasonItem (rs ! 1) = Some conflicting"
    and "map_of conflicting ''idempotencyKey'' = Some (S (idempotentKey input))"
  shows "idempotencyConflict (Some rs) input"
proof -
  have "rs ! 1 \<in> set rs" using assms(1) by simp
  moreover have "Option.bind (ReasonItem (rs ! 1))
      (\<lambda>i. Option.bind (map_of i ''idempotencyKey'') member_S) = Some (idempotentKey input)"
    using assms(3,4) by simp
  ultimately show ?thesis
    using assms(2) unfolding idempotencyConflict_def list_ex_iff by auto
qed

lemma transact_conflict:
  assumes "client (atomicWrite now config input) s =
      (Inl (TransactionCanceledException message reasons), s1)"
    and "\<not> (type input \<noteq> CREDIT \<and> firstCode reasons = Some ''ConditionalCheckFailed'')"
    and "idempotencyConflict reasons input"
    and "client (ledgerRead config input) s1 = (Inr (Output found), s2)"
  shows "transact now client config input s =
    (if found \<noteq> None then Inr () else Inl (Error (''Transaction failed: '' @ message)), s2)"
  using assms
  by (auto simp add: transact_def atomicWrite_def ledgerRead_def checkExistingTransaction_def)

lemma transact_cancelled_other:
  assumes "client (atomicWrite now config input) s =
      (Inl (TransactionCanceledException message reasons), s1)"
    and "\<not> (type input \<noteq> CREDIT \<and> firstCode reasons = Some ''ConditionalCheckFailed'')"
    and "\<not> idempotencyConflict reasons input"
  shows "transact now client config input s =
    (Inl (Error (''Transaction failed: '' @ message)), s1)"
  using assms by (auto simp add: transact_def atomicWrite_def)

lemma transact_other_exception:
  assumes "client (atomicWrite now config input) s = (Inl (ServiceException name message), s1)"
  shows "transact now client config input s = (Inl (Thrown (ServiceException name message)), s1)"
  using assms by (simp add: transact_def atomicWrite_def)

text \<open>
  C2, as the specification states it, fails twice. A cancellation that reports no failed
  guard (here a conflict between two transactions) is not passed on unchanged:
  \<open>transact\<close> replaces it by a plain \<open>Error\<close> that only keeps its message. And when the
  ledger guard fails with the conflicting record reported, a \<open>DEBIT\<close> whose balance
  guard is reported failed as well fails with \<open>InsufficientBalanceError\<close> without the
  ledger being read again: the prepared answer to that read is still in the queue.
\<close>

theorem transact_cancellation_replaced:
  "transact 1700000000000 scripted Config validInput
     [Inl (TransactionCanceledException ''Transaction cancelled''
        (Some [CancellationReason (Some ''TransactionConflict'') None,
               CancellationReason (Some ''None'') None]))]
     = (Inl (Error ''Transaction failed: Transaction cancelled''), [])
   \<and> transact 1700000000000 (logged scripted) Config debitInput
       ([Inl (TransactionCanceledException ''Transaction cancelled''
            (Some [CancellationReason (Some ''ConditionalCheckFailed'') None,
                   CancellationReason (Some ''ConditionalCheckFailed'')
                     (Some [(''idempotencyKey'', S ''key123'')])])),
         Inr (Output (Some mockTransaction))], [])
     = (Inl InsufficientBalanceError,
        ([Inr (Output (Some mockTransaction))], [atomicWrite 1700000000000 Config debitInput]))"
  by (simp add: transact_def logged_def atomicWrite_def validInput_def debitInput_def
      firstCode_def idempotencyConflict_def CREDIT_def DEBIT_def)

text \<open>
  C2 (amended): when the store cancels the atomic write, the request is not a non-credit
  whose first reason is a failed condition (that case is C1), and the reason of
  operation 2, the ledger insert, is a failed condition that reports a record whose
  \<open>idempotencyKey\<close> is the request's key, then \<open>transact\<close> reads the ledger again for
  that key and sends nothing more: it returns normally when a record is found and fails
  with \<open>Error\<close> "Transaction failed: " followed by the store's message when none is.
  An exception of the store that is not a cancellation is rethrown unchanged. A
  cancellation that matches neither pattern fails with the same \<open>Error\<close>, which keeps the
  store's message but not the exception.
\<close>

theorem transact_conflict_resolution:
  "(client (atomicWrite now config input) s =
       (Inl (TransactionCanceledException message (Some rs)), s1) \<and>
    \<not> (type input \<noteq> CREDIT \<and> firstCode (Some rs) = Some ''ConditionalCheckFailed'') \<and>
    1 < length rs \<and> Code (rs ! 1) = Some ''ConditionalCheckFailed'' \<and>
    ReasonItem (rs ! 1) = Some conflicting \<and>
    map_of conflicting ''idempotencyKey'' = Some (S (idempotentKey input)) \<and>
    client (ledgerRead config input) s1 = (Inr (Output found), s2) \<longrightarrow>
      transact now (logged client) config input (s, []) =
        (if found \<noteq> None then Inr () else Inl (Error (''Transaction failed: '' @ message)),
         (s2, [atomicWrite now config input, ledgerRead config input])))
   \<and> (client (atomicWrite now config input) s = (Inl (ServiceException name message), s1) \<longrightarrow>
        transact now (logged client) config input (s, []) =
          (Inl (Thrown (ServiceException name message)), (s1, [atomicWrite now config input])))
   \<and> (client (atomicWrite now config input) s =
         (Inl (TransactionCanceledException message reasons), s1) \<and>
       \<not> (type input \<noteq> CREDIT \<and> firstCode reasons = Some ''ConditionalCheckFailed'') \<and>
       \<not> idempotencyConflict reasons input \<longrightarrow>
        transact now (logged client) config input (s, []) =
          (Inl (Error (''Transaction failed: '' @ message)), (s1, [atomicWrite now config input])))"
proof (intro conjI impI)
  assume a: "client (atomicWrite now config input) s =
       (Inl (TransactionCanceledException message (Some rs)), s1) \<and>
    \<not> (type input \<noteq> CREDIT \<and> firstCode (Some rs) = Some ''ConditionalCheckFailed'') \<and>
    1 < length rs \<and> Code (rs ! 1) = Some ''ConditionalCheckFailed'' \<and>
    ReasonItem (rs ! 1) = Some conflicting \<and>
    map_of conflicting ''idempotencyKey'' = Some (S (idempotentKey input)) \<and>
    client (ledgerRead config input) s1 = (Inr (Output found), s2)"
  then have c: "idempotencyConflict (Some rs) input"
    by (simp add: conflict_reported)
  have w: "logged client (atomicWrite now config input) (s, []) =
      (Inl (TransactionCanceledException message (Some rs)), (s1, [atomicWrite now config input]))"
    using a by (simp add: logged_step)
  have r: "logged client (ledgerRead config input) (s1, [atomicWrite now config input]) =
      (Inr (Output found), (s2, [atomicWrite now config input, ledgerRead config input]))"
    using a by (simp add: logged_step)
  show "transact now (logged client) config input (s, []) =
        (if found \<noteq> None then Inr () else Inl (Error (''Transaction failed: '' @ message)),
         (s2, [atomicWrite now config input, ledgerRead config input]))"
    using a c transact_conflict [OF w _ c r] by simp
next
  assume "client (atomicWrite now config input) s = (Inl (ServiceException name message), s1)"
  then have "logged client (atomicWrite now config input) (s, []) =
      (Inl (ServiceException name message), (s1, [atomicWrite now config input]))"
    by (simp add: logged_step)
  then show "transact now (logged client) config input (s, []) =
          (Inl (Thrown (ServiceException name message)), (s1, [atomicWrite now config input]))"
    by (rule transact_other_exception)
next
  assume a: "client (atomicWrite now config input) s =
         (Inl (TransactionCanceledException message reasons), s1) \<and>
       \<not> (type input \<noteq> CREDIT \<and> firstCode reasons = Some ''ConditionalCheckFailed'') \<and>
       \<not> idempotencyConflict reasons input"
  then have "logged client (atomicWrite now config input) (s, []) =
      (Inl (TransactionCanceledException message reasons), (s1, [atomicWrite now config input]))"
    by (simp add: logged_step)
  then show "transact now (logged client) config input (s, []) =
          (Inl (Error (''Transaction failed: '' @ message)), (s1, [atomicWrite now config input]))"
    using a by (simp add: transact_cancelled_other)
qed

theorem transact_conflict_resolution_witness:
  "transact 1700000000000 (logged scripted) Config validInput
     ([Inl (TransactionCanceledException ''Transaction cancelled''
          (Some [CancellationReason (Some ''None'') None,
                 CancellationReason (Some ''ConditionalCheckFailed'')
                   (Some [(''idempotencyKey'', S ''key123'')])])),
       Inr (Output (Some mockTransaction))], [])
     = (Inr (),
        ([], [atomicWrite 1700000000000 Config validInput, ledgerRead Config validInput]))
   \<and> transact 1700000000000 (logged scripted) Config validInput
     ([Inl (TransactionCanceledException ''Transaction cancelled''
          (Some [CancellationReason (Some ''None'') None,
                 CancellationReason (Some ''ConditionalCheckFailed'')
                   (Some [(''idempotencyKey'', S ''key123'')])])),
       Inr (Output None)], [])
     = (Inl (Error ''Transaction failed: Transaction cancelled''),
        ([], [atomicWrite 1700000000000 Config validInput, ledgerRead Config validInput]))
   \<and> transact 1700000000000 (logged scripted) Config validInput
     ([Inl (ServiceException ''ProvisionedThroughputExceededException'' ''Rate exceeded'')], [])
     = (Inl (Thrown (ServiceException ''ProvisionedThroughputExceededException'' ''Rate exceeded'')),
        ([], [atomicWrite 1700000000000 Config validInput]))
   \<and> transact 1700000000000 (logged scripted) Config validInput
     ([Inl (TransactionCanceledException ''Transaction cancelled''
          (Some [CancellationReason (Some ''TransactionConflict'') None,
                 CancellationReason (Some ''None'') None]))], [])
     = (Inl (Error ''Transaction failed: Transaction cancelled''),
        ([], [atomicWrite 1700000000000 Config validInput]))"
  using
    transact_conflict_resolution [where client = scripted and now = "1700000000000"
      and config = Config and input = validInput
      and s = "[Inl (TransactionCanceledException ''Transaction cancelled''
          (Some [CancellationReason (Some ''None'') None,
                 CancellationReason (Some ''ConditionalCheckFailed'')
                   (Some [(''idempotencyKey'', S ''key123'')])])),
       Inr (Output (Some mockTransaction))]"
      and message = "''Transaction cancelled''"
      and rs = "[CancellationReason (Some ''None'') None,
                 CancellationReason (Some ''ConditionalCheckFailed'')
                   (Some [(''idempotencyKey'', S ''key123'')])]"
      and ?s1.0 = "[Inr (Output (Some mockTransaction))]"
      and conflicting = "[(''idempotencyKey'', S ''key123'')]"
      and found = "Some mockTransaction" and ?s2.0 = "[]"]
    transact_conflict_resolution [where client = scripted and now = "1700000000000"
      and config = Config and input = validInput
      and s = "[Inl (TransactionCanceledException ''Transaction cancelled''
          (Some [CancellationReason (Some ''None'') None,
                 CancellationReason (Some ''ConditionalCheckFailed'')
                   (Some [(''idempotencyKey'', S ''key123'')])])),
       Inr (Output None)]"
      and message = "''Transaction cancelled''"
      and rs = "[CancellationReason (Some ''None'') None,
                 CancellationReason (Some ''ConditionalCheckFailed'')
                   (Some [(''idempotencyKey'', S ''key123'')])]"
      and ?s1.0 = "[Inr (Output None)]"
      and conflicting = "[(''idempotencyKey'', S ''key123'')]"
      and found = None and ?s2.0 = "[]"]
    transact_conflict_resolution [where client = scripted and now = "1700000000000"
      and config = Config and input = validInput
      and s = "[Inl (ServiceException ''ProvisionedThroughputExceededException''
                  ''Rate exceeded'')]"
      and name = "''ProvisionedThroughputExceededException''"
      and message = "''Rate exceeded''" and ?s1.0 = "[]"]
    transact_conflict_resolution [where client = scripted and now = "1700000000000"
      and config = Config and input = validInput
      and s = "[Inl (TransactionCanceledException ''Transaction cancelled''
          (Some [CancellationReason (Some ''TransactionConflict'') None,
                 CancellationReason (Some ''None'') None]))]"
      and message = "''Transaction cancelled''"
      and reasons = "Some [CancellationReason (Some ''TransactionConflict'') None,
                 CancellationReason (Some ''None'') None]"
      and ?s1.0 = "[]"]
  by (simp add: validInput_def firstCode_def idempotencyConflict_def CREDIT_def)

subsection \<open>What is sent, and in which order\<close>

lemma transact_sends_first:
  "\<exists>r sf rest.
     transact now (logged client) config input (s, sent) =
       (r, (sf, sent @ atomicWrite now config input # rest)) \<and>
     \<not> list_ex isWrite rest"
  by (auto simp add: transact_def logged_def checkExistingTransaction_def atomicWrite_def Let_def
      split: prod.splits sum.splits SdkException.splits)

text \<open>
  C3: whatever the store answers, \<open>transact\<close> sends exactly one write, an atomic write of
  exactly two operations. The first updates the balance of the user keyed by \<open>userId\<close>:
  for a \<open>CREDIT\<close>, without condition, to \<open>if_not_exists(balance, 0) + amount\<close>; otherwise (a
  \<open>DEBIT\<close>) to \<open>balance - amount\<close> under the condition that \<open>balance\<close> exists and is at
  least the amount. The second puts the ledger record keyed by \<open>idempotencyKey\<close>, with
  the user, the amount, the type and the transactor's clock reading, under the
  condition that no record has that key. (What these expressions do to a row is
  \<open>credit_verdict\<close>, \<open>debit_verdict\<close> and \<open>insert_verdict\<close> below.)
\<close>

theorem transact_single_atomic_write:
  "filter isWrite (snd (snd (transact now (logged client) config input (s, [])))) =
     [TransactWriteItemsCommand
        [if type input = CREDIT
         then Update (DB_USERS_TABLE config) [(''userId'', S (userId input))]
                (SET ''#balance''
                   (Plus (if_not_exists ''#balance'' (Placeholder '':zero''))
                      (Placeholder '':amount'')))
                [('':amount'', N (amount input)), ('':zero'', N ''0'')]
                [(''#balance'', ''balance'')] None
         else Update (DB_USERS_TABLE config) [(''userId'', S (userId input))]
                (SET ''#balance'' (Minus (Path ''#balance'') (Placeholder '':amount'')))
                [('':amount'', N (amount input))]
                [(''#balance'', ''balance'')]
                (Some (AND (attribute_exists ''#balance'')
                   (GreaterEq (Path ''#balance'') (Placeholder '':amount'')))),
         Put (DB_TRANSACTIONS_TABLE config)
           [(''idempotencyKey'', S (idempotentKey input)), (''userId'', S (userId input)),
            (''amount'', N (amount input)), (''type'', S (type input)),
            (''timestamp'', N (toString now))]
           (Some (attribute_not_exists ''idempotencyKey''))]]"
proof -
  obtain r sf rest where
    t: "transact now (logged client) config input (s, []) =
      (r, (sf, [] @ atomicWrite now config input # rest))" and n: "\<not> list_ex isWrite rest"
    using transact_sends_first [of now client config input s "[]"] by blast
  have "filter isWrite rest = []"
    using n by (simp add: list_ex_iff filter_empty_conv)
  then show ?thesis
    using t
    by (simp add: atomicWrite_def creditUserBalance_def debitUserBalance_def
        insertNewTransaction_def)
qed

theorem transact_single_atomic_write_witness:
  "filter isWrite (snd (snd (transact 1700000000000 (logged scripted) Config debitInput
       ([Inl (TransactionCanceledException ''Transaction cancelled''
            (Some [CancellationReason (Some ''None'') None,
                   CancellationReason (Some ''ConditionalCheckFailed'')
                     (Some [(''idempotencyKey'', S ''key123'')])])),
         Inr (Output (Some mockTransaction))], [])))) =
     [TransactWriteItemsCommand
        [Update ''Users'' [(''userId'', S ''user123'')]
           (SET ''#balance'' (Minus (Path ''#balance'') (Placeholder '':amount'')))
           [('':amount'', N ''100'')]
           [(''#balance'', ''balance'')]
           (Some (AND (attribute_exists ''#balance'')
              (GreaterEq (Path ''#balance'') (Placeholder '':amount'')))),
         Put ''Transactions''
           [(''idempotencyKey'', S ''key123''), (''userId'', S ''user123''),
            (''amount'', N ''100''), (''type'', S ''debit''),
            (''timestamp'', N ''1700000000000'')]
           (Some (attribute_not_exists ''idempotencyKey''))]]"
  using
    transact_single_atomic_write [where client = scripted and now = "1700000000000"
      and config = Config and input = debitInput
      and s = "[Inl (TransactionCanceledException ''Transaction cancelled''
            (Some [CancellationReason (Some ''None'') None,
                   CancellationReason (Some ''ConditionalCheckFailed'')
                     (Some [(''idempotencyKey'', S ''key123'')])])),
         Inr (Output (Some mockTransaction))]"]
  by (simp add: debitInput_def validInput_def Config_def CREDIT_def DEBIT_def toString_def
      digit_def)

text \<open>
  C5: the orchestrated operation validates first, and a validation failure is returned
  before anything is sent; then it reads the user and fails with \<open>UserNotFoundError\<close>
  when there is none, having sent only that read; then it reads the ledger for the key
  and returns normally, having sent only the two reads, when a record exists; and only
  when none exists it goes on with \<open>transact\<close>, whose atomic write is the third command.
\<close>

theorem createTransactFn_order:
  "(validate Number input = Inl e \<longrightarrow>
      createTransactFn Number now (logged client) input (s, []) = (Inl e, (s, [])))
   \<and> (validate Number input = Inr () \<and>
       client (userRead Config (userId input)) s = (Inr (Output None), s1) \<longrightarrow>
      createTransactFn Number now (logged client) input (s, []) =
        (Inl (UserNotFoundError (userId input)), (s1, [userRead Config (userId input)])))
   \<and> (validate Number input = Inr () \<and>
       client (userRead Config (userId input)) s = (Inr (Output (Some user)), s1) \<and>
       client (ledgerRead Config input) s1 = (Inr (Output (Some existing)), s2) \<longrightarrow>
      createTransactFn Number now (logged client) input (s, []) =
        (Inr (), (s2, [userRead Config (userId input), ledgerRead Config input])))
   \<and> (validate Number input = Inr () \<and>
       client (userRead Config (userId input)) s = (Inr (Output (Some user)), s1) \<and>
       client (ledgerRead Config input) s1 = (Inr (Output None), s2) \<longrightarrow>
      createTransactFn Number now (logged client) input (s, []) =
        transact now (logged client) Config input
          (s2, [userRead Config (userId input), ledgerRead Config input])
      \<and> take 3 (snd (snd (createTransactFn Number now (logged client) input (s, [])))) =
        [userRead Config (userId input), ledgerRead Config input, atomicWrite now Config input])"
proof (intro conjI impI)
  assume a: "validate Number input = Inr () \<and>
       client (userRead Config (userId input)) s = (Inr (Output (Some user)), s1) \<and>
       client (ledgerRead Config input) s1 = (Inr (Output None), s2)"
  then show b: "createTransactFn Number now (logged client) input (s, []) =
        transact now (logged client) Config input
          (s2, [userRead Config (userId input), ledgerRead Config input])"
    by (simp add: createTransactFn_def getUserItem_def checkExistingTransaction_def
        userRead_def ledgerRead_def logged_def)
  obtain r sf rest where
    "transact now (logged client) Config input
       (s2, [userRead Config (userId input), ledgerRead Config input]) =
      (r, (sf, [userRead Config (userId input), ledgerRead Config input]
             @ atomicWrite now Config input # rest))"
    using transact_sends_first [of now client Config input s2
        "[userRead Config (userId input), ledgerRead Config input]"] by blast
  then show "take 3 (snd (snd (createTransactFn Number now (logged client) input (s, [])))) =
        [userRead Config (userId input), ledgerRead Config input, atomicWrite now Config input]"
    using b by simp
qed (simp_all add: createTransactFn_def getUserItem_def checkExistingTransaction_def
        userRead_def ledgerRead_def logged_def)

theorem createTransactFn_order_witness:
  "createTransactFn NumberOfDigits 1700000000000 (logged scripted)
     (validInput \<lparr> idempotentKey := [] \<rparr>) ([], [])
     = (Inl InvalidIdempotencyKeyError, ([], []))
   \<and> createTransactFn NumberOfDigits 1700000000000 (logged scripted) validInput
       ([Inr (Output None)], [])
     = (Inl (UserNotFoundError ''user123''), ([], [userRead Config ''user123'']))
   \<and> createTransactFn NumberOfDigits 1700000000000 (logged scripted) validInput
       ([Inr (Output (Some [(''userId'', S ''user123'')])), Inr (Output (Some mockTransaction))],
        [])
     = (Inr (), ([], [userRead Config ''user123'', ledgerRead Config validInput]))
   \<and> take 3 (snd (snd (createTransactFn NumberOfDigits 1700000000000 (logged scripted) validInput
       ([Inr (Output (Some [(''userId'', S ''user123'')])), Inr (Output None),
         Inr (Output None)], []))))
     = [userRead Config ''user123'', ledgerRead Config validInput,
        atomicWrite 1700000000000 Config validInput]"
proof -
  have v: "validate NumberOfDigits validInput = Inr ()"
    by (simp add: validate_def validInput_def NumberOfDigits_def digitOf_def CREDIT_def)
  have "createTransactFn NumberOfDigits 1700000000000 (logged scripted)
     (validInput \<lparr> idempotentKey := [] \<rparr>) ([], [])
     = (Inl InvalidIdempotencyKeyError, ([], []))"
    using createTransactFn_order [where Number = NumberOfDigits and now = "1700000000000"
      and client = scripted and input = "validInput \<lparr> idempotentKey := [] \<rparr>"
      and e = InvalidIdempotencyKeyError and s = "[]"]
    by (simp add: validate_def validInput_def)
  moreover have "createTransactFn NumberOfDigits 1700000000000 (logged scripted) validInput
       ([Inr (Output None)], [])
     = (Inl (UserNotFoundError ''user123''), ([], [userRead Config ''user123'']))"
    using v createTransactFn_order [where Number = NumberOfDigits and now = "1700000000000"
      and client = scripted and input = validInput
      and s = "[Inr (Output None)]" and ?s1.0 = "[]"]
    by (simp add: validInput_def)
  moreover have "createTransactFn NumberOfDigits 1700000000000 (logged scripted) validInput
       ([Inr (Output (Some [(''userId'', S ''user123'')])), Inr (Output (Some mockTransaction))],
        [])
     = (Inr (), ([], [userRead Config ''user123'', ledgerRead Config validInput]))"
    using v createTransactFn_order [where Number = NumberOfDigits and now = "1700000000000"
      and client = scripted and input = validInput
      and s = "[Inr (Output (Some [(''userId'', S ''user123'')])),
                Inr (Output (Some mockTransaction))]"
      and user = "[(''userId'', S ''user123'')]"
      and ?s1.0 = "[Inr (Output (Some mockTransaction))]"
      and existing = mockTransaction and ?s2.0 = "[]"]
    by (simp add: validInput_def)
  moreover have "take 3 (snd (snd (createTransactFn NumberOfDigits 1700000000000
       (logged scripted) validInput
       ([Inr (Output (Some [(''userId'', S ''user123'')])), Inr (Output None),
         Inr (Output None)], []))))
     = [userRead Config ''user123'', ledgerRead Config validInput,
        atomicWrite 1700000000000 Config validInput]"
  proof -
    have u: "userId validInput = ''user123''" by (simp add: validInput_def)
    have "validate NumberOfDigits validInput = Inr () \<and>
       scripted (userRead Config (userId validInput))
         [Inr (Output (Some [(''userId'', S ''user123'')])), Inr (Output None), Inr (Output None)]
         = (Inr (Output (Some [(''userId'', S ''user123'')])),
            [Inr (Output None), Inr (Output None)]) \<and>
       scripted (ledgerRead Config validInput) [Inr (Output None), Inr (Output None)]
         = (Inr (Output None), [Inr (Output None)])"
      using v by simp
    then show ?thesis
      using createTransactFn_order [where Number = NumberOfDigits and now = "1700000000000"
        and client = scripted and input = validInput
        and s = "[Inr (Output (Some [(''userId'', S ''user123'')])), Inr (Output None),
                  Inr (Output None)]"
        and user = "[(''userId'', S ''user123'')]"
        and ?s1.0 = "[Inr (Output None), Inr (Output None)]"
        and ?s2.0 = "[Inr (Output None)]"]
      unfolding u by blast
  qed
  ultimately show ?thesis by blast
qed

subsection \<open>The library on the store: what the store answers\<close>

lemma store_read_same: "store P (GetItemCommand tableName key) st = (r, st') \<Longrightarrow> st' = st"
  by (simp add: store_def split: option.splits)

lemma store_userRead:
  "uid \<noteq> [] \<Longrightarrow> store P (userRead Config uid) st =
     (Inr (Output (map_option (wireItem P) (itemAt ''userId'' uid (users st uid)))), st)"
  by (simp add: store_def userRead_def keyAttribute_def table_def)

lemma store_ledgerRead:
  "idempotentKey input \<noteq> [] \<Longrightarrow> store P (ledgerRead Config input) st =
     (Inr (Output (map_option (wireItem P)
        (itemAt ''idempotencyKey'' (idempotentKey input)
           (transactions st (idempotentKey input))))), st)"
  by (simp add: store_def ledgerRead_def keyAttribute_def table_def Config_def)

lemma store_atomicWrite:
  "store P (atomicWrite now Config input) st =
     (let v1 = evalItem P st (if type input = CREDIT then creditUserBalance Config input
                              else debitUserBalance Config input);
          v2 = evalItem P st (insertNewTransaction now Config input)
      in if isMalformed v1 \<or> isMalformed v2
         then (Inl (ServiceException ''ValidationException'' ''Invalid request''), st)
         else if isAccepted v1 \<and> isAccepted v2
         then (Inr (Output None), commit (commit st v1) v2)
         else (Inl (TransactionCanceledException cancelMessage
                 (Some [reasonOf P v1, reasonOf P v2])), st))"
  by (simp add: store_def atomicWrite_def Let_def)

text \<open>
  The debit update is accepted exactly when the user has a numeric balance that is at
  least the amount, and then subtracts the amount; otherwise its guard fails.
\<close>

lemma debit_verdict:
  "evalItem P st (debitUserBalance Config input) =
     (if userId input = [] then Malformed
      else case readN P (amount input) of
        None \<Rightarrow> Malformed
      | Some a \<Rightarrow>
         (case storedBalance st (userId input) of
            None \<Rightarrow> Rejected ''ConditionalCheckFailed''
                      (itemAt ''userId'' (userId input) (users st (userId input)))
          | Some b \<Rightarrow>
              if a \<le> b
              then Accepted (DB_USERS_TABLE Config) (userId input)
                     (AList.update ''balance'' (VN (b - a))
                        (AList.update ''userId'' (VS (userId input))
                           (the (users st (userId input)))))
              else Rejected ''ConditionalCheckFailed''
                      (itemAt ''userId'' (userId input) (users st (userId input)))))"
  by (auto simp add: debitUserBalance_def keyAttribute_def resolve_def guardHolds_def arith_def
      table_def storedBalance_def itemAt_def update_conv Let_def
      split: option.splits val.splits)

text \<open>
  The credit update has no guard: it adds the amount to the balance, or to what the store
  reads \<^verbatim>\<open>"0"\<close> as when there is no balance, and creates the row when there is none.
\<close>

lemma credit_verdict:
  "evalItem P st (creditUserBalance Config input) =
     (if userId input = [] then Malformed
      else case (readN P (amount input), readN P ''0'') of
        (Some a, Some z) \<Rightarrow>
         (case users st (userId input) of
            None \<Rightarrow> Accepted (DB_USERS_TABLE Config) (userId input)
                     (AList.update ''balance'' (VN (z + a)) [(''userId'', VS (userId input))])
          | Some r \<Rightarrow>
             (case map_of r ''balance'' of
                None \<Rightarrow> Accepted (DB_USERS_TABLE Config) (userId input)
                     (AList.update ''balance'' (VN (z + a))
                        (AList.update ''userId'' (VS (userId input)) r))
              | Some (VN b) \<Rightarrow> Accepted (DB_USERS_TABLE Config) (userId input)
                     (AList.update ''balance'' (VN (b + a))
                        (AList.update ''userId'' (VS (userId input)) r))
              | Some (VS str) \<Rightarrow> Rejected ''ValidationError''
                     (Some (AList.update ''userId'' (VS (userId input)) r))))
      | other \<Rightarrow> Malformed)"
  by (auto simp add: creditUserBalance_def keyAttribute_def resolve_def guardHolds_def arith_def
      table_def itemAt_def update_conv Let_def
      split: option.splits val.splits)

text \<open>The ledger insert is accepted exactly when the ledger has no record under the key.\<close>

lemma insert_verdict:
  "evalItem P st (insertNewTransaction now Config input) =
     (if idempotentKey input = [] then Malformed
      else case (readN P (amount input), readN P (toString now)) of
        (Some a, Some t) \<Rightarrow>
          if transactions st (idempotentKey input) = None
          then Accepted (DB_TRANSACTIONS_TABLE Config) (idempotentKey input)
                 [(''idempotencyKey'', VS (idempotentKey input)), (''userId'', VS (userId input)),
                  (''amount'', VN a), (''type'', VS (type input)), (''timestamp'', VN t)]
          else Rejected ''ConditionalCheckFailed''
                 (itemAt ''idempotencyKey'' (idempotentKey input)
                    (transactions st (idempotentKey input)))
      | other \<Rightarrow> Malformed)"
  by (auto simp add: insertNewTransaction_def keyAttribute_def resolve_def guardHolds_def
      storedItem_def table_def Config_def itemAt_def update_conv Let_def
      split: option.splits val.splits)

lemma user_verdict_table:
  assumes "evalItem P st (if type input = CREDIT then creditUserBalance Config input
                       else debitUserBalance Config input) = Accepted t1 k1 r1"
  shows "t1 = DB_USERS_TABLE Config"
  using assms
  by (cases "type input = CREDIT")
     (auto simp add: credit_verdict debit_verdict split: if_splits option.splits val.splits)

lemma insert_accepted:
  assumes "evalItem P st (insertNewTransaction now Config input) = Accepted t2 k2 r2"
  shows "t2 = DB_TRANSACTIONS_TABLE Config \<and> k2 = idempotentKey input \<and>
    transactions st k2 = None"
  using assms by (auto simp add: insert_verdict split: if_splits option.splits)

text \<open>An atomic write either leaves the store as it was, or both operations were accepted.\<close>

lemma store_write_cases:
  assumes "store P (atomicWrite now Config input) st = (r, st')"
  shows "st' = st \<and> r \<noteq> Inr (Output None) \<or>
     (\<exists>t1 k1 r1 t2 k2 r2.
        evalItem P st (if type input = CREDIT then creditUserBalance Config input
                       else debitUserBalance Config input) = Accepted t1 k1 r1 \<and>
        evalItem P st (insertNewTransaction now Config input) = Accepted t2 k2 r2 \<and>
        r = Inr (Output None) \<and> st' = setRow t2 k2 r2 (setRow t1 k1 r1 st))"
proof -
  let ?v1 = "evalItem P st (if type input = CREDIT then creditUserBalance Config input
                       else debitUserBalance Config input)"
  let ?v2 = "evalItem P st (insertNewTransaction now Config input)"
  show ?thesis
  proof (cases "isAccepted ?v1 \<and> isAccepted ?v2")
    case True
    then obtain t1 k1 r1 t2 k2 r2 where "?v1 = Accepted t1 k1 r1" "?v2 = Accepted t2 k2 r2"
      by (metis isAccepted.elims(2))
    then show ?thesis using assms by (auto simp add: store_atomicWrite Let_def)
  next
    case False
    then show ?thesis using assms by (auto simp add: store_atomicWrite Let_def split: if_splits)
  qed
qed

lemma transact_store_cases:
  assumes "transact now (store P) Config input st = (res, st')"
  shows "st' = st \<or>
     (\<exists>t1 k1 r1 t2 k2 r2.
        evalItem P st (if type input = CREDIT then creditUserBalance Config input
                       else debitUserBalance Config input) = Accepted t1 k1 r1 \<and>
        evalItem P st (insertNewTransaction now Config input) = Accepted t2 k2 r2 \<and>
        res = Inr () \<and> st' = setRow t2 k2 r2 (setRow t1 k1 r1 st))"
proof -
  obtain r s1 where w: "store P (atomicWrite now Config input) st = (r, s1)"
    by (cases "store P (atomicWrite now Config input) st")
  from store_write_cases [OF w] show ?thesis
  proof
    assume a: "s1 = st \<and> r \<noteq> Inr (Output None)"
    have "st' = st"
      using assms w a
      by (auto simp add: transact_def atomicWrite_def checkExistingTransaction_def Let_def
          split: sum.splits SdkException.splits if_splits prod.splits
          dest: store_read_same)
    then show ?thesis by simp
  next
    assume "\<exists>t1 k1 r1 t2 k2 r2.
        evalItem P st (if type input = CREDIT then creditUserBalance Config input
                       else debitUserBalance Config input) = Accepted t1 k1 r1 \<and>
        evalItem P st (insertNewTransaction now Config input) = Accepted t2 k2 r2 \<and>
        r = Inr (Output None) \<and> s1 = setRow t2 k2 r2 (setRow t1 k1 r1 st)"
    then show ?thesis using assms w
      by (auto simp add: transact_def atomicWrite_def)
  qed
qed

lemma validate_nonempty:
  "validate Number input = Inr () \<Longrightarrow> userId input \<noteq> [] \<and> idempotentKey input \<noteq> []"
  by (auto simp add: validate_def split: if_splits)

text \<open>The orchestrated operation on the store, for a request that passes validation.\<close>

lemma createTransactFn_store:
  assumes "validate Number input = Inr ()"
  shows "createTransactFn Number now (store P) input st =
    (if users st (userId input) = None then (Inl (UserNotFoundError (userId input)), st)
     else if transactions st (idempotentKey input) \<noteq> None then (Inr (), st)
     else transact now (store P) Config input st)"
  using assms validate_nonempty [OF assms]
  by (simp add: createTransactFn_def getUserItem_def checkExistingTransaction_def
      store_userRead [unfolded userRead_def] store_ledgerRead [unfolded ledgerRead_def]
      itemAt_def)

lemma createTransactFn_store_cases:
  "snd (createTransactFn Number now (store P) input st) = st \<or>
   createTransactFn Number now (store P) input st = transact now (store P) Config input st"
  by (auto simp add: createTransactFn_def getUserItem_def checkExistingTransaction_def
      split: sum.splits prod.splits dest: store_read_same)

text \<open>A successful atomic write, spelled out.\<close>

lemma transact_applies:
  assumes "userId input \<noteq> []" and "idempotentKey input \<noteq> []"
    and "users st (userId input) = Some r"
    and "map_of r ''balance'' = map_option VN bal"
    and "transactions st (idempotentKey input) = None"
    and "readN P (amount input) = Some a"
    and "readN P (toString now) = Some t"
    and "readN P ''0'' = Some 0"
    and "type input \<noteq> CREDIT \<longrightarrow> (\<exists>b. bal = Some b \<and> a \<le> b)"
  shows "transact now (store P) Config input st =
    (Inr (),
     st \<lparr> users := (users st)(userId input \<mapsto>
             AList.update ''balance''
               (VN (if type input = CREDIT then (case bal of None \<Rightarrow> 0 | Some b \<Rightarrow> b) + a
                    else the bal - a))
               (AList.update ''userId'' (VS (userId input)) r)),
          transactions := (transactions st)(idempotentKey input \<mapsto>
             [(''idempotencyKey'', VS (idempotentKey input)), (''userId'', VS (userId input)),
              (''amount'', VN a), (''type'', VS (type input)), (''timestamp'', VN t)]) \<rparr>)"
proof -
  let ?row = "AList.update ''balance''
               (VN (if type input = CREDIT then (case bal of None \<Rightarrow> 0 | Some b \<Rightarrow> b) + a
                    else the bal - a))
               (AList.update ''userId'' (VS (userId input)) r)"
  let ?rec = "[(''idempotencyKey'', VS (idempotentKey input)), (''userId'', VS (userId input)),
         (''amount'', VN a), (''type'', VS (type input)), (''timestamp'', VN t)]"
  have v2: "evalItem P st (insertNewTransaction now Config input) =
      Accepted (DB_TRANSACTIONS_TABLE Config) (idempotentKey input) ?rec"
    using assms by (simp add: insert_verdict)
  have v1: "evalItem P st (if type input = CREDIT then creditUserBalance Config input
                           else debitUserBalance Config input) =
      Accepted (DB_USERS_TABLE Config) (userId input) ?row"
  proof (cases "type input = CREDIT")
    case True
    then show ?thesis using assms
      by (cases bal) (simp_all add: credit_verdict)
  next
    case False
    then obtain b where "bal = Some b" "a \<le> b" using assms(9) by blast
    then show ?thesis using False assms
      by (simp add: debit_verdict storedBalance_def)
  qed
  have "store P (atomicWrite now Config input) st =
      (Inr (Output None),
       setRow (DB_TRANSACTIONS_TABLE Config) (idempotentKey input) ?rec
         (setRow (DB_USERS_TABLE Config) (userId input) ?row st))"
    using v1 v2 by (simp add: store_atomicWrite Let_def del: evalItem.simps)
  then have "transact now (store P) Config input st =
      (Inr (),
       setRow (DB_TRANSACTIONS_TABLE Config) (idempotentKey input) ?rec
         (setRow (DB_USERS_TABLE Config) (userId input) ?row st))"
    by (simp add: transact_def atomicWrite_def del: evalItem.simps)
  then show ?thesis by (simp add: setRow_def Config_def)
qed



subsection \<open>Facts about the concrete requests and states\<close>

lemma digits_signAgrees: "signAgrees NumberOfDigits digitsStore"
  by (auto simp add: signAgrees_def NumberOfDigits_def digitsStore_def
      split: option.splits if_splits)

lemma exampleStore_nonNegative: "nonNegativeBalances exampleStore"
  by (auto simp add: nonNegativeBalances_def exampleStore_def storedBalance_def split: if_splits)

lemma credit11_valid: "validate NumberOfDigits credit11 = Inr ()"
  by (simp add: validate_def credit11_def NumberOfDigits_def digitOf_def CREDIT_def)

lemma debit9_valid: "validate NumberOfDigits debit9 = Inr ()"
  by (simp add: validate_def debit9_def NumberOfDigits_def digitOf_def DEBIT_def)

lemma digitsStore_reads:
  "readN digitsStore ''0'' = Some 0"
  "readN digitsStore ''10'' = Some 10"
  "readN digitsStore (toString 1700000000000) = Some 1700000000000"
  by (simp_all add: digitsStore_def digitOf_def toString_def digit_def)


subsection \<open>Insufficient balance\<close>

text \<open>
  C7: for a \<open>DEBIT\<close> request on a user whose stored balance is less than the amount (the
  store reading the amount and the clock reading as numbers, and both keys being
  non-empty), \<open>transact\<close> fails with \<open>InsufficientBalanceError\<close> and the store is
  exactly as before: neither the balance nor the ledger has changed. The orchestrated
  operation does the same when the request passes validation and its key is not yet in
  the ledger.
\<close>

theorem debit_insufficient_unchanged:
  assumes "type input = DEBIT" and "userId input \<noteq> []" and "idempotentKey input \<noteq> []"
    and "storedBalance st (userId input) = Some b"
    and "readN P (amount input) = Some a" and "b < a"
    and "readN P (toString now) = Some t"
  shows "transact now (store P) Config input st = (Inl InsufficientBalanceError, st)
    \<and> (validate Number input = Inr () \<and> transactions st (idempotentKey input) = None \<longrightarrow>
         createTransactFn Number now (store P) input st = (Inl InsufficientBalanceError, st))"
proof -
  have d: "type input \<noteq> CREDIT"
    using assms(1) by (simp add: DEBIT_def CREDIT_def)
  have v1: "evalItem P st (debitUserBalance Config input) =
      Rejected ''ConditionalCheckFailed''
        (itemAt ''userId'' (userId input) (users st (userId input)))"
    using assms by (simp add: debit_verdict)
  have v2: "\<not> isMalformed (evalItem P st (insertNewTransaction now Config input))"
    using assms by (simp add: insert_verdict)
  have w: "store P (atomicWrite now Config input) st =
      (Inl (TransactionCanceledException cancelMessage
        (Some [reasonOf P (evalItem P st (debitUserBalance Config input)),
               reasonOf P (evalItem P st (insertNewTransaction now Config input))])), st)"
    using d v1 v2 by (simp add: store_atomicWrite Let_def)
  have "firstCode (Some [reasonOf P (evalItem P st (debitUserBalance Config input)),
               reasonOf P (evalItem P st (insertNewTransaction now Config input))])
      = Some ''ConditionalCheckFailed''"
    using v1 by (simp add: firstCode_def)
  with w d have t: "transact now (store P) Config input st = (Inl InsufficientBalanceError, st)"
    by (rule transact_debit_guard)
  have u: "users st (userId input) \<noteq> None"
    using assms(4) by (auto simp add: storedBalance_def split: option.splits)
  show ?thesis using t u by (auto simp add: createTransactFn_store)
qed

theorem debit_insufficient_unchanged_witness:
  "transact 1700000000000 (store digitsStore) Config debit9 exampleStore =
     (Inl InsufficientBalanceError, exampleStore)
   \<and> createTransactFn NumberOfDigits 1700000000000 (store digitsStore) debit9 exampleStore =
     (Inl InsufficientBalanceError, exampleStore)"
proof -
  have "type debit9 = DEBIT" and "userId debit9 \<noteq> []" and "idempotentKey debit9 \<noteq> []"
    by (simp_all add: debit9_def)
  moreover have "storedBalance exampleStore (userId debit9) = Some 5"
    by (simp add: storedBalance_def exampleStore_def debit9_def)
  moreover have "readN digitsStore (amount debit9) = Some 10"
    using digitsStore_reads(2) by (simp add: debit9_def)
  moreover have "(5::rat) < 10" by simp
  moreover note digitsStore_reads(3)
  ultimately have
    "transact 1700000000000 (store digitsStore) Config debit9 exampleStore =
       (Inl InsufficientBalanceError, exampleStore)
     \<and> (validate NumberOfDigits debit9 = Inr () \<and>
         transactions exampleStore (idempotentKey debit9) = None \<longrightarrow>
        createTransactFn NumberOfDigits 1700000000000 (store digitsStore) debit9 exampleStore =
          (Inl InsufficientBalanceError, exampleStore))"
    by (rule debit_insufficient_unchanged)
  moreover have "transactions exampleStore (idempotentKey debit9) = None"
    by (simp add: exampleStore_def)
  ultimately show ?thesis using debit9_valid by simp
qed

subsection \<open>Balances never go below zero\<close>

lemma user_verdict_accepted:
  assumes "evalItem P st (if type input = CREDIT then creditUserBalance Config input
                       else debitUserBalance Config input) = Accepted t1 k1 r1"
    and "\<forall>x. readN P (amount input) = Some x \<longrightarrow> 0 < x"
    and "readN P ''0'' = Some 0"
    and "nonNegativeBalances st"
  shows "\<exists>nb. map_of r1 ''balance'' = Some (VN nb) \<and> 0 \<le> nb"
proof (cases "type input = CREDIT")
  case True
  then have v: "evalItem P st (creditUserBalance Config input) = Accepted t1 k1 r1"
    using assms(1) by simp
  show ?thesis
  proof (cases "users st (userId input)")
    case None
    then show ?thesis using v assms(2,3)
      by (auto simp add: credit_verdict update_conv split: if_splits option.splits)
  next
    case (Some r)
    note row = this
    show ?thesis
    proof (cases "map_of r ''balance''")
      case None
      then show ?thesis using v row assms(2,3)
        by (auto simp add: credit_verdict update_conv split: if_splits option.splits)
    next
      case (Some bal)
      show ?thesis
      proof (cases bal)
        case (VS str)
        then show ?thesis using v row Some
          by (auto simp add: credit_verdict split: if_splits option.splits)
      next
        case (VN b)
        then have "storedBalance st (userId input) = Some b"
          using row Some by (simp add: storedBalance_def)
        then have "0 \<le> b" using assms(4) by (simp add: nonNegativeBalances_def)
        then show ?thesis using v row Some VN assms(2)
          by (auto simp add: credit_verdict update_conv split: if_splits option.splits)
      qed
    qed
  qed
next
  case False
  then have "evalItem P st (debitUserBalance Config input) = Accepted t1 k1 r1"
    using assms(1) by simp
  then show ?thesis
    by (auto simp add: debit_verdict update_conv split: if_splits option.splits)
qed

lemma nonNegative_after_write:
  assumes "nonNegativeBalances st" and "map_of r1 ''balance'' = Some (VN nb)" and "0 \<le> nb"
  shows "nonNegativeBalances
    (setRow (DB_TRANSACTIONS_TABLE Config) k2 r2 (setRow (DB_USERS_TABLE Config) k1 r1 st))"
  using assms
  by (auto simp add: nonNegativeBalances_def setRow_def storedBalance_def Config_def
      split: option.splits val.splits if_splits)

lemma transact_keeps_nonNegative:
  assumes "nonNegativeBalances st"
    and "\<forall>x. readN P (amount input) = Some x \<longrightarrow> 0 < x"
    and "readN P ''0'' = Some 0"
  shows "nonNegativeBalances (snd (transact now (store P) Config input st))"
proof -
  obtain res st' where t: "transact now (store P) Config input st = (res, st')"
    by (cases "transact now (store P) Config input st")
  from transact_store_cases [OF t] show ?thesis
  proof
    assume "st' = st"
    then show ?thesis using t assms(1) by simp
  next
    assume "\<exists>t1 k1 r1 t2 k2 r2.
        evalItem P st (if type input = CREDIT then creditUserBalance Config input
                       else debitUserBalance Config input) = Accepted t1 k1 r1 \<and>
        evalItem P st (insertNewTransaction now Config input) = Accepted t2 k2 r2 \<and>
        res = Inr () \<and> st' = setRow t2 k2 r2 (setRow t1 k1 r1 st)"
    then obtain t1 k1 r1 t2 k2 r2 where
      v1: "evalItem P st (if type input = CREDIT then creditUserBalance Config input
                       else debitUserBalance Config input) = Accepted t1 k1 r1" and
      v2: "evalItem P st (insertNewTransaction now Config input) = Accepted t2 k2 r2" and
      s: "st' = setRow t2 k2 r2 (setRow t1 k1 r1 st)" by blast
    from user_verdict_accepted [OF v1 assms(2) assms(3) assms(1)] obtain nb where
      u: "map_of r1 ''balance'' = Some (VN nb)" "0 \<le> nb" by blast
    have "t1 = DB_USERS_TABLE Config" using v1 by (rule user_verdict_table)
    moreover have "t2 = DB_TRANSACTIONS_TABLE Config" using insert_accepted [OF v2] by simp
    ultimately show ?thesis
      using t s nonNegative_after_write [OF assms(1) u] by simp
  qed
qed

lemma validated_amount_positive:
  assumes "validate Number input = Inr ()" and "signAgrees Number P"
  shows "\<forall>x. readN P (amount input) = Some x \<longrightarrow> 0 < x"
proof (intro allI impI)
  fix x assume r: "readN P (amount input) = Some x"
  have n: "\<not> isNaN (Number (amount input)) \<and> \<not> le_zero (Number (amount input))"
    using assms(1) by (auto simp add: validate_def split: if_splits)
  show "0 < x"
  proof (rule ccontr)
    assume "\<not> 0 < x"
    then have "x \<le> 0" by simp
    then have "isNaN (Number (amount input)) \<or> le_zero (Number (amount input))"
      using assms(2) r unfolding signAgrees_def by blast
    then show False using n by simp
  qed
qed

text \<open>
  C8: from a state of the store in which every balance is at least 0, and for a request
  that passes validation, the state after \<open>transact\<close>, and after the orchestrated
  operation, again has every balance at least 0, whether the call succeeds or fails.
  (The store reads \<^verbatim>\<open>"0"\<close> as 0, and a text that the store reads as a number that is
  at most 0 is one that validation rejects.)
\<close>

theorem balances_stay_nonnegative:
  assumes "nonNegativeBalances st" and "validate Number input = Inr ()"
    and "signAgrees Number P" and "readN P ''0'' = Some 0"
  shows "nonNegativeBalances (snd (transact now (store P) Config input st))
    \<and> nonNegativeBalances (snd (createTransactFn Number now (store P) input st))"
proof -
  have p: "\<forall>x. readN P (amount input) = Some x \<longrightarrow> 0 < x"
    using assms(2,3) by (rule validated_amount_positive)
  have a: "nonNegativeBalances (snd (transact now (store P) Config input st))"
    using assms(1) p assms(4) by (rule transact_keeps_nonNegative)
  have "nonNegativeBalances (snd (createTransactFn Number now (store P) input st))"
    using createTransactFn_store_cases [of Number now P input st] a assms(1) by auto
  with a show ?thesis by simp
qed

theorem balances_stay_nonnegative_witness:
  "nonNegativeBalances
     (snd (transact 1700000000000 (store digitsStore) Config credit11 exampleStore))
   \<and> nonNegativeBalances
       (snd (createTransactFn NumberOfDigits 1700000000000 (store digitsStore) credit11
          exampleStore))"
  using exampleStore_nonNegative credit11_valid digits_signAgrees digitsStore_reads(1)
  by (rule balances_stay_nonnegative)

subsection \<open>Idempotence\<close>

text \<open>
  C4: take a request that passes validation, for an existing user, under a key the ledger
  does not hold yet, with an amount and a clock reading the store can read and, for a
  debit, a balance of at least the amount. The first invocation of the orchestrated
  operation succeeds; after it the store differs from the one before in exactly the
  user's row, whose balance has moved by the amount once, and the one ledger record put
  under the key. The second invocation succeeds too and leaves that store as it is.
\<close>

theorem transact_twice_applies_once:
  assumes "validate Number input = Inr ()"
    and "users st (userId input) = Some r"
    and "map_of r ''balance'' = map_option VN bal"
    and "transactions st (idempotentKey input) = None"
    and "readN P (amount input) = Some a"
    and "readN P (toString now1) = Some t"
    and "readN P ''0'' = Some 0"
    and "type input \<noteq> CREDIT \<longrightarrow> (\<exists>b. bal = Some b \<and> a \<le> b)"
  shows "\<exists>st1.
    createTransactFn Number now1 (store P) input st = (Inr (), st1) \<and>
    createTransactFn Number now2 (store P) input st1 = (Inr (), st1) \<and>
    users st1 = (users st)(userId input \<mapsto>
             AList.update ''balance''
               (VN (if type input = CREDIT then (case bal of None \<Rightarrow> 0 | Some b \<Rightarrow> b) + a
                    else the bal - a))
               (AList.update ''userId'' (VS (userId input)) r)) \<and>
    transactions st1 = (transactions st)(idempotentKey input \<mapsto>
             [(''idempotencyKey'', VS (idempotentKey input)), (''userId'', VS (userId input)),
              (''amount'', VN a), (''type'', VS (type input)), (''timestamp'', VN t)])"
proof -
  have n: "userId input \<noteq> []" "idempotentKey input \<noteq> []"
    using validate_nonempty [OF assms(1)] by simp_all
  have "createTransactFn Number now1 (store P) input st = transact now1 (store P) Config input st"
    using assms(2,4) by (simp add: createTransactFn_store [OF assms(1)])
  then show ?thesis
    using transact_applies [OF n assms(2) assms(3) assms(4) assms(5) assms(6) assms(7) assms(8)]
    by (simp add: createTransactFn_store [OF assms(1)])
qed

theorem transact_twice_applies_once_witness:
  "(\<exists>st1.
    createTransactFn NumberOfDigits 1700000000000 (store digitsStore) credit11 exampleStore
      = (Inr (), st1) \<and>
    createTransactFn NumberOfDigits 1700000000001 (store digitsStore) credit11 st1
      = (Inr (), st1) \<and>
    users st1 = (users exampleStore)(''11'' \<mapsto> [(''userId'', VS ''11''), (''balance'', VN 10)]) \<and>
    transactions st1 = [''1'' \<mapsto>
      [(''idempotencyKey'', VS ''1''), (''userId'', VS ''11''), (''amount'', VN 10),
       (''type'', VS ''credit''), (''timestamp'', VN 1700000000000)]])
   \<and> (\<exists>st1.
    createTransactFn NumberOfDigits 1700000000000 (store digitsStore)
      \<lparr> userId = ''9'', idempotentKey = ''7'', amount = ''3'', type = DEBIT \<rparr> exampleStore
      = (Inr (), st1) \<and>
    createTransactFn NumberOfDigits 1700000000001 (store digitsStore)
      \<lparr> userId = ''9'', idempotentKey = ''7'', amount = ''3'', type = DEBIT \<rparr> st1
      = (Inr (), st1) \<and>
    users st1 = (users exampleStore)(''9'' \<mapsto> [(''userId'', VS ''9''), (''balance'', VN 2)]) \<and>
    transactions st1 = [''7'' \<mapsto>
      [(''idempotencyKey'', VS ''7''), (''userId'', VS ''9''), (''amount'', VN 3),
       (''type'', VS ''debit''), (''timestamp'', VN 1700000000000)]])"
proof (rule conjI)
  have u: "users exampleStore (userId credit11) = Some [(''userId'', VS ''11'')]"
    by (simp add: exampleStore_def credit11_def)
  have m: "map_of [(''userId'', VS ''11'')] ''balance'' = map_option VN None"
    by simp
  have f: "transactions exampleStore (idempotentKey credit11) = None"
    by (simp add: exampleStore_def)
  have a: "readN digitsStore (amount credit11) = Some 10"
    using digitsStore_reads(2) by (simp add: credit11_def)
  have d: "type credit11 \<noteq> CREDIT \<longrightarrow> (\<exists>b. None = Some b \<and> 10 \<le> b)"
    by (simp add: credit11_def)
  show "\<exists>st1.
    createTransactFn NumberOfDigits 1700000000000 (store digitsStore) credit11 exampleStore
      = (Inr (), st1) \<and>
    createTransactFn NumberOfDigits 1700000000001 (store digitsStore) credit11 st1
      = (Inr (), st1) \<and>
    users st1 = (users exampleStore)(''11'' \<mapsto> [(''userId'', VS ''11''), (''balance'', VN 10)]) \<and>
    transactions st1 = [''1'' \<mapsto>
      [(''idempotencyKey'', VS ''1''), (''userId'', VS ''11''), (''amount'', VN 10),
       (''type'', VS ''credit''), (''timestamp'', VN 1700000000000)]]"
    using transact_twice_applies_once
      [OF credit11_valid u m f a digitsStore_reads(3) digitsStore_reads(1) d,
       of "1700000000001"]
    by (simp add: credit11_def CREDIT_def exampleStore_def)
next
  let ?debit = "\<lparr> userId = ''9'', idempotentKey = ''7'', amount = ''3'', type = DEBIT \<rparr>"
  have v: "validate NumberOfDigits ?debit = Inr ()"
    by (simp add: validate_def NumberOfDigits_def digitOf_def DEBIT_def)
  have u: "users exampleStore (userId ?debit) = Some [(''userId'', VS ''9''), (''balance'', VN 5)]"
    by (simp add: exampleStore_def)
  have m: "map_of [(''userId'', VS ''9''), (''balance'', VN 5)] ''balance''
      = map_option VN (Some 5)"
    by simp
  have f: "transactions exampleStore (idempotentKey ?debit) = None"
    by (simp add: exampleStore_def)
  have a: "readN digitsStore (amount ?debit) = Some 3"
    by (simp add: digitsStore_def digitOf_def)
  have d: "type ?debit \<noteq> CREDIT \<longrightarrow> (\<exists>b. Some (5::rat) = Some b \<and> 3 \<le> b)"
    by simp
  show "\<exists>st1.
    createTransactFn NumberOfDigits 1700000000000 (store digitsStore) ?debit exampleStore
      = (Inr (), st1) \<and>
    createTransactFn NumberOfDigits 1700000000001 (store digitsStore) ?debit st1
      = (Inr (), st1) \<and>
    users st1 = (users exampleStore)(''9'' \<mapsto> [(''userId'', VS ''9''), (''balance'', VN 2)]) \<and>
    transactions st1 = [''7'' \<mapsto>
      [(''idempotencyKey'', VS ''7''), (''userId'', VS ''9''), (''amount'', VN 3),
       (''type'', VS ''debit''), (''timestamp'', VN 1700000000000)]]"
    using transact_twice_applies_once
      [OF v u m f a digitsStore_reads(3) digitsStore_reads(1) d, of "1700000000001"]
    by (simp add: CREDIT_def DEBIT_def exampleStore_def)
qed



end
